theory Spec2Isabelle
  imports Main "HOL-Library.Sublist"
begin

section \<open>Handle registries\<close>

text \<open>
  The adapter lends numeric handles for stack frames, variable containers, sources and
  breakpoint ids.
\<close>

text \<open>
  Modelled from the spec: the class \<open>Handles\<close> (of the debug-adapter library) and its
  subclass \<open>ReverseHandles\<close> (of the module \<open>utils\<close>) are missing. The spec (4.3)
  describes a lender that issues a monotonically increasing nonzero number per inserted
  value, whose lookup returns the value or "absent", which can be reset, and whose
  breakpoint-id variant also maps a value back to its number. This covers \<open>Handles\<close>,
  \<open>START_HANDLE\<close>, \<open>new_Handles\<close>, \<open>Handles_reset\<close>, \<open>Handles_create\<close>, \<open>Handles_get\<close>,
  \<open>ReverseHandles\<close>, \<open>new_ReverseHandles\<close>, \<open>ReverseHandles_create\<close> and
  \<open>ReverseHandles_lookup\<close>. The first number lent is the library's, 1000; no property
  below depends on which nonzero number it is.
\<close>

record 'a Handles =
  nextHandle :: nat
  handleMap :: "nat \<rightharpoonup> 'a"

definition START_HANDLE :: nat where
  "START_HANDLE = 1000"

definition new_Handles :: "'a Handles" where
  "new_Handles = \<lparr>nextHandle = START_HANDLE, handleMap = Map.empty\<rparr>"

definition Handles_reset :: "('a, 'm) Handles_scheme \<Rightarrow> ('a, 'm) Handles_scheme" where
  "Handles_reset h = h\<lparr>nextHandle := START_HANDLE, handleMap := Map.empty\<rparr>"

definition Handles_create :: "'a \<Rightarrow> 'a Handles \<Rightarrow> nat \<times> 'a Handles" where
  "Handles_create v h =
     (nextHandle h, h\<lparr>nextHandle := Suc (nextHandle h), handleMap := (handleMap h)(nextHandle h \<mapsto> v)\<rparr>)"

definition Handles_get :: "('a, 'm) Handles_scheme \<Rightarrow> nat \<Rightarrow> 'a option" where
  "Handles_get h n = handleMap h n"

record 'a ReverseHandles = "'a Handles" +
  reverseMap :: "'a \<rightharpoonup> nat"

definition new_ReverseHandles :: "'a ReverseHandles" where
  "new_ReverseHandles = \<lparr>nextHandle = START_HANDLE, handleMap = Map.empty, reverseMap = Map.empty\<rparr>"

definition ReverseHandles_create :: "'a \<Rightarrow> 'a ReverseHandles \<Rightarrow> nat \<times> 'a ReverseHandles" where
  "ReverseHandles_create v h =
     (nextHandle h,
      h\<lparr>nextHandle := Suc (nextHandle h),
        handleMap := (handleMap h)(nextHandle h \<mapsto> v),
        reverseMap := (reverseMap h)(v \<mapsto> nextHandle h)\<rparr>)"

definition ReverseHandles_lookup :: "'a ReverseHandles \<Rightarrow> 'a \<Rightarrow> nat option" where
  "ReverseHandles_lookup h v = reverseMap h v"

section \<open>Protocol data\<close>

text \<open>
  The protocol types are declared outside the adapter; each record has the fields the
  adapter reads or writes, an optional field being an \<open>option\<close>.
\<close>

text \<open>JavaScript values that reach the adapter by value.\<close>

datatype jsval = JUndefined | JNull | JBool bool | JNum int | JStr string

record RemoteObject =
  ro_type :: string
  ro_subtype :: "string option"
  ro_value :: jsval
  ro_description :: "string option"
  ro_objectId :: "string option"

record Location =
  scriptId :: string
  lineNumber :: int
  columnNumber :: "int option"

record CallFrame =
  callFrameId :: string
  functionName :: string
  location :: Location

record PausedEvent =
  n_callFrames :: "CallFrame list"
  n_reason :: string
  n_data :: "RemoteObject option"
  n_hitBreakpoints :: "string list option"

record ScriptParsedEvent =
  s_scriptId :: string
  s_url :: string
  s_sourceMapURL :: "string option"

record ISourceContainer =
  sc_scriptId :: "string option"
  sc_contents :: "string option"
  sc_mappedPath :: "string option"

record Source =
  src_name :: "string option"
  src_path :: "string option"
  src_sourceReference :: "nat option"

record SourceBreakpoint =
  sb_line :: int
  sb_column :: "int option"
  sb_condition :: "string option"

record ISetBreakpointsArgs =
  a_source :: Source
  a_breakpoints :: "SourceBreakpoint list"

record Breakpoint =
  bp_id :: "nat option"
  bp_verified :: bool
  bp_line :: "int option"
  bp_column :: "int option"
  bp_message :: "string option"

record IPendingBreakpoint =
  pb_args :: ISetBreakpointsArgs
  pb_ids :: "nat option list"

text \<open>The commands the adapter sends to the runtime, in the order it sends them.\<close>

datatype cdp_request =
    Debugger_resume
  | Debugger_stepOver
  | Debugger_stepInto
  | Debugger_stepOut
  | Debugger_pause
  | Debugger_setBreakpoint string int int "string option"
  | Debugger_setBreakpointByUrl string int int "string option"

text \<open>
  \<open>_currentStep\<close> holds a promise: at first \<open>Promise.resolve()\<close>, later the completion
  of the command a step request sent.
\<close>

datatype step_token = ResolvedStep | CompletionOf cdp_request

datatype session_event =
    StoppedEvent string nat
  | ContinuedEvent nat

section \<open>Promises\<close>

text \<open>
  A promise is described by what it settles to and in how many milliseconds, counted
  from the moment under consideration, it does so; \<open>None\<close> is a promise that never
  settles.
\<close>

datatype 'a outcome = Fulfilled 'a | Rejected string

type_synonym 'a promise = "(nat \<times> 'a outcome) option"

definition Promise_resolve :: "'a \<Rightarrow> 'a promise" where
  "Promise_resolve v = Some (0, Fulfilled v)"

definition Promise_reject :: "string \<Rightarrow> 'a promise" where
  "Promise_reject e = Some (0, Rejected e)"

definition then_p :: "'a promise \<Rightarrow> ('a \<Rightarrow> 'b promise) \<Rightarrow> 'b promise" where
  "then_p p f =
     (case p of
        None \<Rightarrow> None
      | Some (t, Rejected e) \<Rightarrow> Some (t, Rejected e)
      | Some (t, Fulfilled v) \<Rightarrow>
          (case f v of None \<Rightarrow> None | Some (t', r) \<Rightarrow> Some (t + t', r)))"

definition catch_p :: "'a promise \<Rightarrow> (string \<Rightarrow> 'a) \<Rightarrow> 'a promise" where
  "catch_p p h =
     (case p of
        None \<Rightarrow> None
      | Some (t, Rejected e) \<Rightarrow> Some (t, Fulfilled (h e))
      | Some (t, Fulfilled v) \<Rightarrow> Some (t, Fulfilled v))"

record ISetBreakpointsResponseBody =
  breakpoints :: "Breakpoint list"

record StackFrame =
  sf_id :: nat
  sf_name :: string
  sf_source :: Source
  sf_line :: int
  sf_column :: "int option"

text \<open>
  Modelled from the spec: the module \<open>variables\<close> with the containers behind a variable
  handle is missing. The spec (4.4) has a property container identified by an object
  id, a container per scope of a call frame, and one for the exception the runtime
  stopped on.
\<close>

datatype IVariableContainer =
    PropertyContainer "string option"
  | ScopeContainer string nat "string option"
  | ExceptionContainer RemoteObject

text \<open>A JavaScript exception leaves the state as it was when it was thrown.\<close>

datatype js_error = TypeError

section \<open>The adapter's state\<close>

record adapter =
  currentStack :: "CallFrame list option"
  committedBreakpointsByUrl :: "string \<rightharpoonup> string list option"
  exception :: "RemoteObject option"
  setBreakpointsRequestQ :: "ISetBreakpointsResponseBody option promise"
  expectingResumedEvent :: bool
  expectingStopReason :: "string option"
  frameHandles :: "CallFrame option Handles"
  variableHandles :: "IVariableContainer Handles"
  breakpointIdHandles :: "string option ReverseHandles"
  sourceHandles :: "ISourceContainer Handles"
  scriptsById :: "string \<rightharpoonup> ScriptParsedEvent"
  scriptsByUrl :: "string \<rightharpoonup> ScriptParsedEvent"
  pendingBreakpointsByUrl :: "string \<rightharpoonup> IPendingBreakpoint"
  currentStep :: step_token
  nextUnboundBreakpointId :: nat
  sourceMaps :: bool
  smartStep :: bool
  smartStepCount :: nat
  overlay :: "string option"
  chromeCalls :: "cdp_request list"
  sentEvents :: "session_event list"

definition THREAD_ID :: nat where
  "THREAD_ID = 1"

definition PAGE_PAUSE_MESSAGE :: string where
  "PAGE_PAUSE_MESSAGE = ''Paused in Visual Studio Code''"

definition PLACEHOLDER_URL_PROTOCOL :: string where
  "PLACEHOLDER_URL_PROTOCOL = ''debugadapter://''"

definition SET_BREAKPOINTS_TIMEOUT :: nat where
  "SET_BREAKPOINTS_TIMEOUT = 3000"

text \<open>JavaScript truthiness of an optional string and of an optional number.\<close>

fun truthy_str :: "string option \<Rightarrow> bool" where
  "truthy_str None = False"
| "truthy_str (Some s) = (s \<noteq> [])"

fun truthy_num :: "nat option \<Rightarrow> bool" where
  "truthy_num None = False"
| "truthy_num (Some n) = (n \<noteq> 0)"

text \<open>
  \<open>clearTargetContext\<close>: called by the constructor and on a navigation. The two
  transformers it notifies keep their own state outside the adapter.
\<close>

definition clearTargetContext :: "adapter \<Rightarrow> adapter" where
  "clearTargetContext st =
     st\<lparr>scriptsById := Map.empty,
        scriptsByUrl := Map.empty,
        committedBreakpointsByUrl := Map.empty,
        setBreakpointsRequestQ := Promise_resolve None\<rparr>"

text \<open>
  The state the constructor builds: the four registries and the pending map are new,
  the fields with an initialiser have its value, every other field is undefined.
\<close>

definition new_adapter :: adapter where
  "new_adapter =
     clearTargetContext
       \<lparr>currentStack = None,
        committedBreakpointsByUrl = Map.empty,
        exception = None,
        setBreakpointsRequestQ = Promise_resolve None,
        expectingResumedEvent = False,
        expectingStopReason = None,
        frameHandles = new_Handles,
        variableHandles = new_Handles,
        breakpointIdHandles = new_ReverseHandles,
        sourceHandles = new_Handles,
        scriptsById = Map.empty,
        scriptsByUrl = Map.empty,
        pendingBreakpointsByUrl = Map.empty,
        currentStep = ResolvedStep,
        nextUnboundBreakpointId = 0,
        sourceMaps = False,
        smartStep = False,
        smartStepCount = 0,
        overlay = None,
        chromeCalls = [],
        sentEvents = []\<rparr>"

definition onGlobalObjectCleared :: "adapter \<Rightarrow> adapter" where
  "onGlobalObjectCleared st = clearTargetContext st"

section \<open>Step commands\<close>

text \<open>
  Each command sends one request to the runtime and keeps the completion of that
  request in \<open>_currentStep\<close>.
\<close>

definition continue :: "adapter \<Rightarrow> adapter" where
  "continue st =
     st\<lparr>expectingResumedEvent := True,
        chromeCalls := chromeCalls st @ [Debugger_resume],
        currentStep := CompletionOf Debugger_resume\<rparr>"

text \<open>The source's \<open>next\<close>; the name is a keyword of the proof language.\<close>

definition next_step :: "adapter \<Rightarrow> adapter" where
  "next_step st =
     st\<lparr>expectingStopReason := Some ''step'',
        expectingResumedEvent := True,
        chromeCalls := chromeCalls st @ [Debugger_stepOver],
        currentStep := CompletionOf Debugger_stepOver\<rparr>"

definition stepIn :: "adapter \<Rightarrow> adapter" where
  "stepIn st =
     st\<lparr>expectingStopReason := Some ''step'',
        expectingResumedEvent := True,
        chromeCalls := chromeCalls st @ [Debugger_stepInto],
        currentStep := CompletionOf Debugger_stepInto\<rparr>"

definition stepOut :: "adapter \<Rightarrow> adapter" where
  "stepOut st =
     st\<lparr>expectingStopReason := Some ''step'',
        expectingResumedEvent := True,
        chromeCalls := chromeCalls st @ [Debugger_stepOut],
        currentStep := CompletionOf Debugger_stepOut\<rparr>"

definition pause :: "adapter \<Rightarrow> adapter" where
  "pause st =
     st\<lparr>expectingStopReason := Some ''user_request'',
        chromeCalls := chromeCalls st @ [Debugger_pause],
        currentStep := CompletionOf Debugger_pause\<rparr>"

section \<open>Stack frames\<close>

definition shouldIgnoreScript :: "ScriptParsedEvent \<Rightarrow> bool" where
  "shouldIgnoreScript script =
     (prefix ''extensions::'' (s_url script) \<or> prefix ''chrome-extension://'' (s_url script))"

text \<open>
  \<open>callFrameToStackFrame\<close> lends a source handle and then a frame handle. Reading
  \<open>script.url\<close> of an unknown script for the frame's name throws; the \<open>catch\<close>
  block then lends a frame handle for \<open>null\<close>, the source handle lent before staying in
  place. \<open>basename\<close> stands for \<open>path.basename\<close> of the platform.
\<close>

definition callFrameToStackFrame ::
  "(string \<Rightarrow> string) \<Rightarrow> CallFrame \<Rightarrow> adapter \<Rightarrow> StackFrame \<times> adapter" where
  "callFrameToStackFrame basename frame st =
     (let loc = location frame;
          line = lineNumber loc;
          column = columnNumber loc;
          script = scriptsById st (scriptId loc);
          (ref, sh) =
            (case script of
               Some s \<Rightarrow>
                 if \<not> shouldIgnoreScript s
                 then Handles_create \<lparr>sc_scriptId = Some (s_scriptId s), sc_contents = None, sc_mappedPath = None\<rparr>
                        (sourceHandles st)
                 else Handles_create \<lparr>sc_scriptId = Some (scriptId loc), sc_contents = None, sc_mappedPath = None\<rparr>
                        (sourceHandles st)
             | None \<Rightarrow>
                 Handles_create \<lparr>sc_scriptId = Some (scriptId loc), sc_contents = None, sc_mappedPath = None\<rparr>
                   (sourceHandles st));
          source =
            (case script of
               Some s \<Rightarrow>
                 if \<not> shouldIgnoreScript s
                 then \<lparr>src_name = Some (basename (s_url s)), src_path = Some (s_url s),
                       src_sourceReference = Some ref\<rparr>
                 else \<lparr>src_name = Some (basename (s_url s)),
                       src_path = Some (PLACEHOLDER_URL_PROTOCOL @ scriptId loc),
                       src_sourceReference = Some ref\<rparr>
             | None \<Rightarrow>
                 \<lparr>src_name = None, src_path = Some (PLACEHOLDER_URL_PROTOCOL @ scriptId loc),
                  src_sourceReference = Some ref\<rparr>);
          st1 = st\<lparr>sourceHandles := sh\<rparr>
      in if functionName frame \<noteq> [] \<or> script \<noteq> None
         then
           (let frameName =
                  (if functionName frame \<noteq> [] then functionName frame
                   else if s_url (the script) \<noteq> [] then ''(anonymous function)'' else ''(eval code)'');
                (fid, fh) = Handles_create (Some frame) (frameHandles st1)
            in (\<lparr>sf_id = fid, sf_name = frameName, sf_source = source, sf_line = line, sf_column = column\<rparr>,
                st1\<lparr>frameHandles := fh\<rparr>))
         else
           (let (fid, fh) = Handles_create None (frameHandles st1)
            in (\<lparr>sf_id = fid, sf_name = ''Unknown'',
                 sf_source = \<lparr>src_name = Some ''eval:Unknown'',
                              src_path = Some (PLACEHOLDER_URL_PROTOCOL @ ''Unknown''),
                              src_sourceReference = None\<rparr>,
                 sf_line = line, sf_column = column\<rparr>,
                st1\<lparr>frameHandles := fh\<rparr>)))"

fun callFramesToStackFrames ::
  "(string \<Rightarrow> string) \<Rightarrow> CallFrame list \<Rightarrow> adapter \<Rightarrow> StackFrame list \<times> adapter" where
  "callFramesToStackFrames basename [] st = ([], st)"
| "callFramesToStackFrames basename (f # fs) st =
     (let (sf, st1) = callFrameToStackFrame basename f st;
          (sfs, st2) = callFramesToStackFrames basename fs st1
      in (sf # sfs, st2))"

text \<open>
  \<open>stackTrace\<close>: without a current stack, \<open>filter\<close> or \<open>map\<close> on \<open>null\<close> throws before
  any handle is lent. The response is the one handed to the transformer pipeline.
\<close>

definition stackTrace ::
  "(string \<Rightarrow> string) \<Rightarrow> nat option \<Rightarrow> adapter \<Rightarrow> (js_error \<times> adapter) + (StackFrame list \<times> adapter)" where
  "stackTrace basename levels st =
     (case currentStack st of
        None \<Rightarrow> Inl (TypeError, st)
      | Some frames \<Rightarrow>
          Inr (callFramesToStackFrames basename
                 (if truthy_num levels then take (the levels) frames else frames) st))"

section \<open>Pause and resume\<close>

definition commonArgs :: "bool \<Rightarrow> bool \<Rightarrow> adapter \<Rightarrow> adapter" where
  "commonArgs argSourceMaps argSmartStep st = st\<lparr>sourceMaps := argSourceMaps, smartStep := argSmartStep\<rparr>"

text \<open>The overlay request is debounced; the state keeps the last message asked for.\<close>

definition setOverlay :: "string option \<Rightarrow> adapter \<Rightarrow> adapter" where
  "setOverlay msg st = st\<lparr>overlay := msg\<rparr>"

text \<open>
  The promise \<open>smartStepP\<close>: already decided, or waiting for the source-map
  transformer to map the top frame back to an authored location.
\<close>

datatype smartStepP = Decided bool | AwaitsMapping StackFrame

text \<open>
  \<open>shouldSmartStep\<close> receives \<open>this._currentStack[0]\<close>, which is \<open>undefined\<close> for an
  empty stack; destructuring it in \<open>callFrameToStackFrame\<close> throws.
\<close>

definition shouldSmartStep ::
  "(string \<Rightarrow> string) \<Rightarrow> CallFrame option \<Rightarrow> adapter \<Rightarrow> (js_error \<times> adapter) + (smartStepP \<times> adapter)" where
  "shouldSmartStep basename frame st =
     (if \<not> sourceMaps st then Inr (Decided False, st)
      else
        (case frame of
           None \<Rightarrow> Inl (TypeError, st)
         | Some f \<Rightarrow>
             (let (sf, st1) = callFrameToStackFrame basename f st
              in Inr (AwaitsMapping sf, st1))))"

fun first_frame :: "CallFrame list \<Rightarrow> CallFrame option" where
  "first_frame [] = None"
| "first_frame (f # fs) = Some f"

fun nonempty_hits :: "string list option \<Rightarrow> bool" where
  "nonempty_hits None = False"
| "nonempty_hits (Some hs) = (hs \<noteq> [])"

text \<open>
  The synchronous part of \<open>onDebuggerPaused\<close>, up to the point where the continuation
  of \<open>smartStepP\<close> is registered. It yields the stop reason and the promise.
\<close>

definition onDebuggerPaused ::
  "(string \<Rightarrow> string) \<Rightarrow> PausedEvent \<Rightarrow> adapter \<Rightarrow>
     (js_error \<times> adapter) + (string \<times> smartStepP \<times> adapter)" where
  "onDebuggerPaused basename notification st =
     (let st1 = setOverlay (Some PAGE_PAUSE_MESSAGE)
                  (st\<lparr>variableHandles := Handles_reset (variableHandles st),
                      frameHandles := Handles_reset (frameHandles st),
                      sourceHandles := Handles_reset (sourceHandles st),
                      exception := None\<rparr>);
          st2 = st1\<lparr>currentStack := Some (n_callFrames notification)\<rparr>
      in if n_reason notification = ''exception''
         then Inr (''exception'', Decided False,
                   st2\<lparr>exception := n_data notification, expectingStopReason := None\<rparr>)
         else if nonempty_hits (n_hitBreakpoints notification)
         then Inr (''breakpoint'', Decided False, st2\<lparr>expectingStopReason := None\<rparr>)
         else if truthy_str (expectingStopReason st2)
         then
           (if smartStep st2
            then
              (case shouldSmartStep basename (first_frame (n_callFrames notification)) st2 of
                 Inl err \<Rightarrow> Inl err
               | Inr (p, st3) \<Rightarrow>
                   Inr (the (expectingStopReason st2), p, st3\<lparr>expectingStopReason := None\<rparr>))
            else Inr (the (expectingStopReason st2), Decided False, st2\<lparr>expectingStopReason := None\<rparr>))
         else Inr (''debugger'', Decided False, st2\<lparr>expectingStopReason := None\<rparr>))"

text \<open>The texts are the default messages handed to \<open>localize\<close>.\<close>

definition stopReasonText :: "string \<Rightarrow> string" where
  "stopReasonText reason =
     (if reason = ''entry'' then ''entry''
      else if reason = ''exception'' then ''exception''
      else if reason = ''breakpoint'' then ''breakpoint''
      else if reason = ''debugger'' then ''debugger statement''
      else if reason = ''frame_entry'' then ''frame entry''
      else if reason = ''step'' then ''step''
      else if reason = ''user_request'' then ''user request''
      else reason)"

text \<open>
  The continuation of \<open>smartStepP\<close>, run once the promise has resolved to \<open>should\<close>.
  The stopped event goes out when \<open>_currentStep\<close> settles or after 300 ms, whichever
  comes first, so it is sent in either case.
\<close>

definition onDebuggerPaused_then :: "bool \<Rightarrow> string \<Rightarrow> adapter \<Rightarrow> adapter" where
  "onDebuggerPaused_then should reason st =
     (if should then stepIn (st\<lparr>smartStepCount := smartStepCount st + 1\<rparr>)
      else
        (let st1 = (if smartStepCount st > 0 then st\<lparr>smartStepCount := 0\<rparr> else st)
         in st1\<lparr>sentEvents := sentEvents st1 @ [StoppedEvent (stopReasonText reason) THREAD_ID]\<rparr>))"

definition onDebuggerResumed :: "adapter \<Rightarrow> adapter" where
  "onDebuggerResumed st =
     (let st1 = (setOverlay None st)\<lparr>currentStack := None\<rparr>
      in if \<not> expectingResumedEvent st1
         then st1\<lparr>sentEvents := sentEvents st1 @ [ContinuedEvent THREAD_ID]\<rparr>
         else st1\<lparr>expectingResumedEvent := False\<rparr>)"

section \<open>Scripts\<close>

text \<open>
  The synchronous part of \<open>onScriptParsed\<close>; the runtime sends an empty string for a
  script without a URL. \<open>fixUrl\<close> stands for \<open>utils.fixDriveLetterAndSlashes\<close>. What
  follows once the source-map transformer has answered (rebinding pending breakpoints)
  is a later turn of the event loop.
\<close>

definition onScriptParsed :: "(string \<Rightarrow> string) \<Rightarrow> ScriptParsedEvent \<Rightarrow> adapter \<Rightarrow> adapter" where
  "onScriptParsed fixUrl script st =
     (if shouldIgnoreScript script then st
      else
        (let script1 =
               (if s_url script \<noteq> [] then script\<lparr>s_url := fixUrl (s_url script)\<rparr>
                else script\<lparr>s_url := PLACEHOLDER_URL_PROTOCOL @ s_scriptId script\<rparr>)
         in st\<lparr>scriptsById := (scriptsById st)(s_scriptId script1 \<mapsto> script1),
               scriptsByUrl := (scriptsByUrl st)(s_url script1 \<mapsto> script1)\<rparr>))"

section \<open>Adding breakpoints\<close>

text \<open>
  Modelled from the spec: \<open>utils.lstrip\<close> is missing; the spec has the placeholder URL
  carry the script id after the protocol prefix.
\<close>

definition lstrip :: "string \<Rightarrow> string \<Rightarrow> string" where
  "lstrip s lStr = (if prefix lStr s then drop (length lStr) s else s)"

fun column_or_0 :: "int option \<Rightarrow> int" where
  "column_or_0 None = 0"
| "column_or_0 (Some c) = c"

text \<open>
  The requests \<open>addBreakpoints\<close> sends, one per breakpoint and in their order.
  \<open>pathToRegex\<close> stands for \<open>utils.pathToRegex\<close>.
\<close>

definition addBreakpoints_requests ::
  "(string \<Rightarrow> string) \<Rightarrow> string \<Rightarrow> SourceBreakpoint list \<Rightarrow> cdp_request list" where
  "addBreakpoints_requests pathToRegex url bps =
     (if prefix PLACEHOLDER_URL_PROTOCOL url
      then
        (let sid = lstrip url PLACEHOLDER_URL_PROTOCOL
         in map (\<lambda>bp. Debugger_setBreakpoint sid (sb_line bp) (column_or_0 (sb_column bp)) (sb_condition bp)) bps)
      else
        (let urlRegex = pathToRegex url
         in map (\<lambda>bp. Debugger_setBreakpointByUrl urlRegex (sb_line bp) (column_or_0 (sb_column bp)) (sb_condition bp)) bps))"

text \<open>What the runtime answers to one request.\<close>

datatype 'a answer = Ok 'a | Err string

record SetBreakpointResponse =
  r_breakpointId :: "string option"
  r_actualLocation :: "Location option"

record SetBreakpointByUrlResponse =
  u_breakpointId :: string
  u_locations :: "Location list"

text \<open>
  One answer of \<open>setBreakpointByUrl\<close> brought into the shape of a \<open>setBreakpoint\<close>
  response. An error becomes the empty object. With a location in the answer and no
  script recorded under the URL, reading \<open>script.scriptId\<close> throws inside the
  fulfilment handler, which the rejection handler beside it does not catch.
\<close>

definition byUrlResponse ::
  "ScriptParsedEvent option \<Rightarrow> SetBreakpointByUrlResponse answer \<Rightarrow> string + SetBreakpointResponse" where
  "byUrlResponse script a =
     (case a of
        Err e \<Rightarrow> Inr \<lparr>r_breakpointId = None, r_actualLocation = None\<rparr>
      | Ok result \<Rightarrow>
          (case u_locations result of
             [] \<Rightarrow> Inr \<lparr>r_breakpointId = Some (u_breakpointId result), r_actualLocation = None\<rparr>
           | l # ls \<Rightarrow>
               (case script of
                  None \<Rightarrow> Inl ''TypeError''
                | Some s \<Rightarrow>
                    Inr \<lparr>r_breakpointId = Some (u_breakpointId result),
                         r_actualLocation =
                           Some \<lparr>scriptId = s_scriptId s, lineNumber = lineNumber l,
                                 columnNumber = columnNumber l\<rparr>\<rparr>)))"

text \<open>\<open>Promise.all\<close>: the first rejection in the list, or all the values.\<close>

fun Promise_all :: "(string + 'a) list \<Rightarrow> string + 'a list" where
  "Promise_all [] = Inr []"
| "Promise_all (Inl e # rs) = Inl e"
| "Promise_all (Inr v # rs) = (case Promise_all rs of Inl e \<Rightarrow> Inl e | Inr vs \<Rightarrow> Inr (v # vs))"

text \<open>
  \<open>addBreakpoints\<close>: the requests are appended to the log, and the joined promise settles
  from the runtime's answers. Only the by-URL flavour turns an error into an empty
  object; an error of \<open>setBreakpoint\<close> rejects the whole batch.
\<close>

definition addBreakpoints_byId ::
  "SetBreakpointResponse answer list \<Rightarrow> string + SetBreakpointResponse list" where
  "addBreakpoints_byId answers =
     Promise_all (map (\<lambda>a. case a of Ok r \<Rightarrow> Inr r | Err e \<Rightarrow> Inl e) answers)"

definition addBreakpoints_byUrl ::
  "string \<Rightarrow> SetBreakpointByUrlResponse answer list \<Rightarrow> adapter \<Rightarrow> string + SetBreakpointResponse list" where
  "addBreakpoints_byUrl url answers st =
     Promise_all (map (byUrlResponse (scriptsByUrl st url)) answers)"

definition addBreakpoints ::
  "(string \<Rightarrow> string) \<Rightarrow> string \<Rightarrow> SourceBreakpoint list \<Rightarrow> adapter \<Rightarrow> adapter" where
  "addBreakpoints pathToRegex url bps st =
     st\<lparr>chromeCalls := chromeCalls st @ addBreakpoints_requests pathToRegex url bps\<rparr>"

section \<open>Translating the responses\<close>

text \<open>
  One response, as the \<open>map\<close> callback of \<open>chromeBreakpointResponsesToODPBreakpoints\<close>
  treats it. \<open>None\<close> is a response that is \<open>null\<close> or \<open>undefined\<close>. The empty object
  is an object, so it takes the second branch, where the registry lends a
  handle for its missing \<open>breakpointId\<close>.
\<close>

definition responseToBreakpoint ::
  "SetBreakpointResponse option \<Rightarrow> string option ReverseHandles \<Rightarrow> Breakpoint \<times> string option ReverseHandles" where
  "responseToBreakpoint response h =
     (case response of
        None \<Rightarrow>
          (\<lparr>bp_id = None, bp_verified = False, bp_line = None, bp_column = None, bp_message = None\<rparr>, h)
      | Some r \<Rightarrow>
          (case r_actualLocation r of
             None \<Rightarrow>
               (let (i, h1) = ReverseHandles_create (r_breakpointId r) h
                in (\<lparr>bp_id = Some i, bp_verified = False, bp_line = None, bp_column = None,
                     bp_message = None\<rparr>, h1))
           | Some l \<Rightarrow>
               (let (i, h1) = ReverseHandles_create (r_breakpointId r) h
                in (\<lparr>bp_id = Some i, bp_verified = True, bp_line = Some (lineNumber l),
                     bp_column = columnNumber l, bp_message = None\<rparr>, h1))))"

fun responsesToBreakpoints ::
  "SetBreakpointResponse option list \<Rightarrow> string option ReverseHandles \<Rightarrow>
     Breakpoint list \<times> string option ReverseHandles" where
  "responsesToBreakpoints [] h = ([], h)"
| "responsesToBreakpoints (r # rs) h =
     (let (b, h1) = responseToBreakpoint r h;
          (bs, h2) = responsesToBreakpoints rs h1
      in (b # bs, h2))"

text \<open>
  The \<open>filter\<close> that collects the committed ids reads \<open>response.breakpointId\<close> of every
  response first, so a \<open>null\<close> response throws there, before anything is stored.
\<close>

definition chromeBreakpointResponsesToODPBreakpoints ::
  "string \<Rightarrow> SetBreakpointResponse option list \<Rightarrow> adapter \<Rightarrow>
     (js_error \<times> adapter) + (Breakpoint list \<times> adapter)" where
  "chromeBreakpointResponsesToODPBreakpoints url responses st =
     (if None \<in> set responses then Inl (TypeError, st)
      else
        (let committedBpIds =
               map (\<lambda>r. the (r_breakpointId r))
                 (filter (\<lambda>r. truthy_str (r_breakpointId r)) (map the responses));
             st1 = st\<lparr>committedBreakpointsByUrl := (committedBreakpointsByUrl st)(url \<mapsto> Some committedBpIds)\<rparr>;
             (bps, h) = responsesToBreakpoints responses (breakpointIdHandles st1)
         in Inr (bps, st1\<lparr>breakpointIdHandles := h\<rparr>)))"

section \<open>Unverified responses and pending breakpoints\<close>

text \<open>The decimal text of a number, as \<open>n + ''\<close> gives it.\<close>

fun string_of_nat :: "nat \<Rightarrow> string" where
  "string_of_nat n =
     (if n < 10 then [char_of (48 + n)]
      else string_of_nat (n div 10) @ [char_of (48 + n mod 10)])"

text \<open>
  The \<open>map\<close> of \<open>unverifiedBpResponse\<close>: one breakpoint per requested one, each with a
  handle lent for the text of the next unbound-breakpoint number.
\<close>

fun unverifiedBreakpoints ::
  "string option \<Rightarrow> SourceBreakpoint list \<Rightarrow> nat \<Rightarrow> string option ReverseHandles \<Rightarrow>
     Breakpoint list \<times> nat \<times> string option ReverseHandles" where
  "unverifiedBreakpoints message [] n h = ([], n, h)"
| "unverifiedBreakpoints message (bp # bps) n h =
     (let (i, h1) = ReverseHandles_create (Some (string_of_nat n)) h;
          b = \<lparr>bp_id = Some i, bp_verified = False, bp_line = Some (sb_line bp),
               bp_column = sb_column bp, bp_message = message\<rparr>;
          (bs, n2, h2) = unverifiedBreakpoints message bps (Suc n) h1
      in (b # bs, n2, h2))"

definition unverifiedBpResponse ::
  "ISetBreakpointsArgs \<Rightarrow> string option \<Rightarrow> adapter \<Rightarrow> ISetBreakpointsResponseBody \<times> adapter" where
  "unverifiedBpResponse args message st =
     (let (bps, n, h) =
            unverifiedBreakpoints message (a_breakpoints args) (nextUnboundBreakpointId st)
              (breakpointIdHandles st);
          st1 = st\<lparr>nextUnboundBreakpointId := n, breakpointIdHandles := h\<rparr>;
          st2 =
            (if truthy_str (src_path (a_source args))
             then st1\<lparr>pendingBreakpointsByUrl :=
                        (pendingBreakpointsByUrl st1)
                          (the (src_path (a_source args)) \<mapsto> \<lparr>pb_args = args, pb_ids = map bp_id bps\<rparr>)\<rparr>
             else st1)
      in (\<lparr>breakpoints = bps\<rparr>, st2))"

text \<open>
  \<open>validateBreakpointsPath\<close>: \<open>None\<close> when the promise resolves, the error's message
  when it rejects. \<open>generatedPath\<close> and \<open>targetPath\<close> stand for the source-map
  transformer's \<open>getGeneratedPathFromAuthoredPath\<close> and the path transformer's
  \<open>getTargetPathFromClientPath\<close>.
\<close>

definition validateBreakpointsPath ::
  "(string \<Rightarrow> string option) \<Rightarrow> (string \<Rightarrow> string option) \<Rightarrow> ISetBreakpointsArgs \<Rightarrow> string option" where
  "validateBreakpointsPath generatedPath targetPath args =
     (if \<not> truthy_str (src_path (a_source args)) then None
      else
        (let mappedPath = generatedPath (the (src_path (a_source args)))
         in if \<not> truthy_str mappedPath
            then Some ''Breakpoint ignored because generated code not found (source map problem?).''
            else if \<not> truthy_str (targetPath (the mappedPath))
            then Some ''Breakpoint ignored because target path not found''
            else None))"

text \<open>
  How \<open>setBreakpoints\<close> goes on after the validation: it throws inside the promise
  chain, answers at once with an unverified response, or queues the work for a target
  URL. \<open>transformArgs\<close> stands for the three transformers' \<open>setBreakpoints\<close>, which
  rewrite the request in place.
\<close>

datatype setBreakpoints_route =
    Throws js_error
  | AnswersUnverified ISetBreakpointsResponseBody
  | QueuesFor string ISetBreakpointsArgs

definition setBreakpoints ::
  "(string \<Rightarrow> string option) \<Rightarrow> (string \<Rightarrow> string option) \<Rightarrow>
   (ISetBreakpointsArgs \<Rightarrow> ISetBreakpointsArgs) \<Rightarrow> ISetBreakpointsArgs \<Rightarrow> adapter \<Rightarrow>
     setBreakpoints_route \<times> adapter" where
  "setBreakpoints generatedPath targetPath transformArgs args0 st =
     (case validateBreakpointsPath generatedPath targetPath args0 of
        Some message \<Rightarrow>
          (let (body, st1) = unverifiedBpResponse args0 (Some message) st
           in (AnswersUnverified body, st1))
      | None \<Rightarrow>
          (let args = transformArgs args0
           in if truthy_str (src_path (a_source args))
              then (QueuesFor (the (src_path (a_source args))) args, st)
              else if truthy_num (src_sourceReference (a_source args))
              then
                (case Handles_get (sourceHandles st) (the (src_sourceReference (a_source args))) of
                   None \<Rightarrow> (Throws TypeError, st)
                 | Some handle \<Rightarrow>
                     (case (case sc_scriptId handle of None \<Rightarrow> None | Some sid \<Rightarrow> scriptsById st sid) of
                        Some targetScript \<Rightarrow>
                          if s_url targetScript \<noteq> []
                          then (QueuesFor (s_url targetScript) args, st)
                          else
                            (let (body, st1) =
                                   unverifiedBpResponse args (Some ''Can't find script for breakpoint request'') st
                             in (AnswersUnverified body, st1))
                      | None \<Rightarrow>
                          (let (body, st1) =
                                 unverifiedBpResponse args (Some ''Can't find script for breakpoint request'') st
                           in (AnswersUnverified body, st1))))
              else
                (let (body, st1) =
                       unverifiedBpResponse args (Some ''Can't find script for breakpoint request'') st
                 in (AnswersUnverified body, st1))))"

section \<open>The queue of breakpoint requests\<close>

text \<open>
  Modelled from the spec: \<open>utils.promiseTimeout\<close> is missing. The spec bounds the work
  by the timeout and has the call fail with the timeout's message on expiry, so a
  promise that settles within the bound passes through and any other is rejected when
  the bound is reached.
\<close>

definition promiseTimeout :: "'a promise \<Rightarrow> nat \<Rightarrow> string \<Rightarrow> 'a promise" where
  "promiseTimeout p timeoutMs timeoutMsg =
     (case p of
        None \<Rightarrow> Some (timeoutMs, Rejected timeoutMsg)
      | Some (t, r) \<Rightarrow> if t \<le> timeoutMs then Some (t, r) else Some (timeoutMs, Rejected timeoutMsg))"

text \<open>\<open>p.catch(() => undefined)\<close>: a rejection becomes the value \<open>undefined\<close>.\<close>

definition catch_undefined :: "'a promise \<Rightarrow> 'a option promise" where
  "catch_undefined p =
     (case p of
        None \<Rightarrow> None
      | Some (t, Rejected e) \<Rightarrow> Some (t, Fulfilled None)
      | Some (t, Fulfilled v) \<Rightarrow> Some (t, Fulfilled (Some v)))"

text \<open>
  The branch of \<open>setBreakpoints\<close> for a known target URL. \<open>work\<close> is the promise of
  clearing, adding and translating, started when the queue lets it; \<open>transformBody\<close>
  stands for the transformers' \<open>setBreakpointsResponse\<close>. The result is the promise
  handed to the caller and the state with the new queue. Times are counted from the
  moment of the call, the queue found in the state being taken with the time it still
  needs.
\<close>

definition setBreakpoints_queued ::
  "ISetBreakpointsResponseBody promise \<Rightarrow> (ISetBreakpointsResponseBody \<Rightarrow> ISetBreakpointsResponseBody) \<Rightarrow>
   adapter \<Rightarrow> ISetBreakpointsResponseBody promise \<times> adapter" where
  "setBreakpoints_queued work transformBody st =
     (let setBreakpointsPFailOnError = then_p (setBreakpointsRequestQ st) (\<lambda>_. work);
          setBreakpointsPTimeout =
            promiseTimeout setBreakpointsPFailOnError SET_BREAKPOINTS_TIMEOUT
              ''Set breakpoints request timed out''
      in (then_p setBreakpointsPTimeout (\<lambda>body. Promise_resolve (transformBody body)),
          st\<lparr>setBreakpointsRequestQ := catch_undefined setBreakpointsPTimeout\<rparr>))"

section \<open>Variables\<close>

text \<open>
  Modelled from the spec: the module \<open>errors\<close> is missing; the spec (7) lists its typed
  domain errors.
\<close>

datatype dap_error =
    pathFormat
  | completionsStackFrameNotValid
  | sourceRequestIllegalHandle
  | setValueNotSupported
  | errorFromEvaluate string

record VariablesArguments =
  va_variablesReference :: nat
  va_filter :: "string option"
  va_start :: "nat option"
  va_count :: "nat option"

record SetVariableArguments =
  sv_variablesReference :: nat
  sv_name :: string
  sv_value :: string

text \<open>
  \<open>variables\<close> resolves with \<open>undefined\<close> for an unknown reference and otherwise hands
  over to the container's \<open>expand\<close>; \<open>setVariable\<close> rejects for an unknown reference
  and otherwise hands over to the container's \<open>setValue\<close>.
\<close>

datatype variables_result =
    ResolvesUndefined
  | Expands IVariableContainer "string option" "nat option" "nat option"

datatype setVariable_result =
    RejectsWith dap_error
  | SetsValue IVariableContainer string string

definition variables :: "VariablesArguments \<Rightarrow> adapter \<Rightarrow> variables_result" where
  "variables args st =
     (case Handles_get (variableHandles st) (va_variablesReference args) of
        None \<Rightarrow> ResolvesUndefined
      | Some handle \<Rightarrow> Expands handle (va_filter args) (va_start args) (va_count args))"

definition setVariable :: "SetVariableArguments \<Rightarrow> adapter \<Rightarrow> setVariable_result" where
  "setVariable args st =
     (case Handles_get (variableHandles st) (sv_variablesReference args) of
        None \<Rightarrow> RejectsWith setValueNotSupported
      | Some handle \<Rightarrow> SetsValue handle (sv_name args) (sv_value args))"

record Variable =
  v_name :: string
  v_value :: jsval
  v_variablesReference :: nat

text \<open>
  \<open>remoteObjectToVariable\<close> answers at once for the values without children and hands
  objects and functions over to \<open>createObjectVariable\<close> and \<open>createFunctionVariable\<close>.
  \<open>JSON_stringify\<close> stands for the built-in of that name.
\<close>

datatype toVariable_result =
    Resolved Variable
  | ViaCreateObjectVariable string RemoteObject
  | ViaCreateFunctionVariable string RemoteObject

fun description_value :: "string option \<Rightarrow> jsval" where
  "description_value None = JUndefined"
| "description_value (Some d) = JStr d"

definition remoteObjectToVariable ::
  "(jsval \<Rightarrow> string) \<Rightarrow> string \<Rightarrow> RemoteObject option \<Rightarrow> bool \<Rightarrow> toVariable_result" where
  "remoteObjectToVariable JSON_stringify name object stringify =
     (case object of
        None \<Rightarrow> Resolved \<lparr>v_name = name, v_value = JStr [], v_variablesReference = 0\<rparr>
      | Some obj \<Rightarrow>
          if ro_type obj = ''object''
          then
            (if ro_subtype obj = Some ''internal#location''
             then Resolved \<lparr>v_name = name, v_value = JStr ''internal#location'', v_variablesReference = 0\<rparr>
             else if ro_subtype obj = Some ''null''
             then Resolved \<lparr>v_name = name, v_value = JStr ''null'', v_variablesReference = 0\<rparr>
             else ViaCreateObjectVariable name obj)
          else if ro_type obj = ''undefined''
          then Resolved \<lparr>v_name = name, v_value = JStr ''undefined'', v_variablesReference = 0\<rparr>
          else if ro_type obj = ''function''
          then ViaCreateFunctionVariable name obj
          else if ro_value obj = JUndefined
          then Resolved \<lparr>v_name = name, v_value = description_value (ro_description obj),
                         v_variablesReference = 0\<rparr>
          else if ro_type obj = ''number''
          then Resolved \<lparr>v_name = name, v_value = description_value (ro_description obj),
                         v_variablesReference = 0\<rparr>
          else Resolved \<lparr>v_name = name,
                         v_value = (if stringify then JStr (JSON_stringify (ro_value obj)) else ro_value obj),
                         v_variablesReference = 0\<rparr>)"

section \<open>Runs of the adapter\<close>

text \<open>
  What reaches the adapter: notifications of the runtime and requests of the editor.
  A pause carries, beside the notification, whether the source-map transformer finds no
  authored location for the top frame; the continuation of \<open>smartStepP\<close> is run right
  after the handler.
\<close>

datatype event =
    EvPaused PausedEvent bool
  | EvResumed
  | EvGlobalObjectCleared
  | EvScriptParsed ScriptParsedEvent
  | EvContinue
  | EvNext
  | EvStepIn
  | EvStepOut
  | EvPause
  | EvStackTrace "nat option"

fun resolved_to :: "smartStepP \<Rightarrow> bool \<Rightarrow> bool" where
  "resolved_to (Decided b) mappingMissing = b"
| "resolved_to (AwaitsMapping sf) mappingMissing = mappingMissing"

fun handle_event :: "(string \<Rightarrow> string) \<Rightarrow> (string \<Rightarrow> string) \<Rightarrow> event \<Rightarrow> adapter \<Rightarrow> adapter" where
  "handle_event basename fixUrl (EvPaused n mappingMissing) st =
     (case onDebuggerPaused basename n st of
        Inl (e, st1) \<Rightarrow> st1
      | Inr (reason, p, st1) \<Rightarrow> onDebuggerPaused_then (resolved_to p mappingMissing) reason st1)"
| "handle_event basename fixUrl EvResumed st = onDebuggerResumed st"
| "handle_event basename fixUrl EvGlobalObjectCleared st = onGlobalObjectCleared st"
| "handle_event basename fixUrl (EvScriptParsed script) st = onScriptParsed fixUrl script st"
| "handle_event basename fixUrl EvContinue st = continue st"
| "handle_event basename fixUrl EvNext st = next_step st"
| "handle_event basename fixUrl EvStepIn st = stepIn st"
| "handle_event basename fixUrl EvStepOut st = stepOut st"
| "handle_event basename fixUrl EvPause st = pause st"
| "handle_event basename fixUrl (EvStackTrace levels) st =
     (case stackTrace basename levels st of
        Inl (e, st1) \<Rightarrow> st1
      | Inr (frames, st1) \<Rightarrow> st1)"

fun run :: "(string \<Rightarrow> string) \<Rightarrow> (string \<Rightarrow> string) \<Rightarrow> event list \<Rightarrow> adapter \<Rightarrow> adapter" where
  "run basename fixUrl [] st = st"
| "run basename fixUrl (ev # evs) st = run basename fixUrl evs (handle_event basename fixUrl ev st)"

text \<open>
  Whether the runtime is paused after the events, given whether it was before: the
  last pause or resume among them decides.
\<close>

fun paused_after :: "bool \<Rightarrow> event list \<Rightarrow> bool" where
  "paused_after b [] = b"
| "paused_after b (EvPaused n m # evs) = paused_after True evs"
| "paused_after b (EvResumed # evs) = paused_after False evs"
| "paused_after b (ev # evs) = paused_after b evs"

section \<open>Properties: step commands, navigation, variables\<close>

lemmas step_defs = continue_def next_step_def stepIn_def stepOut_def pause_def

text \<open>
  C7 (as amended). The claim has all five commands set \<open>expectingResumedEvent\<close>. In the
  code \<open>continue\<close>, \<open>next\<close>, \<open>stepIn\<close> and \<open>stepOut\<close> set it, and \<open>pause\<close> leaves it as
  it was. The three stepping commands set \<open>expectingStopReason\<close> to \<open>step\<close>, \<open>pause\<close> sets
  it to \<open>user_request\<close>, \<open>continue\<close> leaves it alone; each command sends its request to
  the runtime and keeps the completion of that request in \<open>currentStep\<close>.
\<close>

theorem step_commands_flags:
  "expectingResumedEvent (continue st) \<and> expectingResumedEvent (next_step st) \<and>
   expectingResumedEvent (stepIn st) \<and> expectingResumedEvent (stepOut st) \<and>
   expectingResumedEvent (pause st) = expectingResumedEvent st \<and>
   expectingStopReason (continue st) = expectingStopReason st \<and>
   expectingStopReason (next_step st) = Some ''step'' \<and>
   expectingStopReason (stepIn st) = Some ''step'' \<and>
   expectingStopReason (stepOut st) = Some ''step'' \<and>
   expectingStopReason (pause st) = Some ''user_request'' \<and>
   currentStep (continue st) = CompletionOf Debugger_resume \<and>
   currentStep (next_step st) = CompletionOf Debugger_stepOver \<and>
   currentStep (stepIn st) = CompletionOf Debugger_stepInto \<and>
   currentStep (stepOut st) = CompletionOf Debugger_stepOut \<and>
   currentStep (pause st) = CompletionOf Debugger_pause \<and>
   chromeCalls (continue st) = chromeCalls st @ [Debugger_resume] \<and>
   chromeCalls (next_step st) = chromeCalls st @ [Debugger_stepOver] \<and>
   chromeCalls (stepIn st) = chromeCalls st @ [Debugger_stepInto] \<and>
   chromeCalls (stepOut st) = chromeCalls st @ [Debugger_stepOut] \<and>
   chromeCalls (pause st) = chromeCalls st @ [Debugger_pause]"
  by (simp add: step_defs)

theorem step_commands_flags_witness:
  "expectingResumedEvent (continue new_adapter) \<and>
   expectingResumedEvent (pause new_adapter) = expectingResumedEvent new_adapter \<and>
   expectingStopReason (pause new_adapter) = Some ''user_request'' \<and>
   currentStep (stepOut new_adapter) = CompletionOf Debugger_stepOut"
  using step_commands_flags [of new_adapter] by simp

text \<open>
  C7 as stated fails: after \<open>pause\<close> on a fresh adapter \<open>expectingResumedEvent\<close> is still
  false.
\<close>

theorem pause_leaves_expectingResumedEvent:
  "\<not> expectingResumedEvent (pause new_adapter)"
  by (simp add: pause_def new_adapter_def clearTargetContext_def)

text \<open>
  C5. After \<open>Debugger.globalObjectCleared\<close> both script maps and the map of committed
  breakpoints are empty and the request queue is a resolved promise again, while the
  registry of breakpoint ids is the same as before, so every id lent earlier still
  resolves.
\<close>

theorem globalObjectCleared_frame:
  "scriptsById (onGlobalObjectCleared st) = Map.empty \<and>
   scriptsByUrl (onGlobalObjectCleared st) = Map.empty \<and>
   committedBreakpointsByUrl (onGlobalObjectCleared st) = Map.empty \<and>
   setBreakpointsRequestQ (onGlobalObjectCleared st) = Promise_resolve None \<and>
   breakpointIdHandles (onGlobalObjectCleared st) = breakpointIdHandles st \<and>
   Handles_get (breakpointIdHandles (onGlobalObjectCleared st)) i = Handles_get (breakpointIdHandles st) i \<and>
   ReverseHandles_lookup (breakpointIdHandles (onGlobalObjectCleared st)) v
     = ReverseHandles_lookup (breakpointIdHandles st) v"
  by (simp add: onGlobalObjectCleared_def clearTargetContext_def Handles_get_def ReverseHandles_lookup_def)

text \<open>
  C9. \<open>remoteObjectToVariable\<close> gives the value \<open>Infinity\<close> for a number described as
  \<open>Infinity\<close>, \<open>undefined\<close> for the type \<open>undefined\<close> and \<open>null\<close> for an object of subtype
  \<open>null\<close>, each with \<open>variablesReference\<close> 0, whatever the other fields of the object
  are.
\<close>

theorem remoteObjectToVariable_plain:
  "remoteObjectToVariable js name (Some (obj\<lparr>ro_type := ''number'', ro_description := Some ''Infinity''\<rparr>)) s
     = Resolved \<lparr>v_name = name, v_value = JStr ''Infinity'', v_variablesReference = 0\<rparr> \<and>
   remoteObjectToVariable js name (Some (obj\<lparr>ro_type := ''undefined''\<rparr>)) s
     = Resolved \<lparr>v_name = name, v_value = JStr ''undefined'', v_variablesReference = 0\<rparr> \<and>
   remoteObjectToVariable js name (Some (obj\<lparr>ro_type := ''object'', ro_subtype := Some ''null''\<rparr>)) s
     = Resolved \<lparr>v_name = name, v_value = JStr ''null'', v_variablesReference = 0\<rparr>"
  by (simp add: remoteObjectToVariable_def)

theorem remoteObjectToVariable_plain_witness:
  "remoteObjectToVariable (\<lambda>v. []) ''x''
     (Some \<lparr>ro_type = ''number'', ro_subtype = None, ro_value = JUndefined,
            ro_description = Some ''Infinity'', ro_objectId = None\<rparr>) True
     = Resolved \<lparr>v_name = ''x'', v_value = JStr ''Infinity'', v_variablesReference = 0\<rparr> \<and>
   remoteObjectToVariable (\<lambda>v. []) ''x''
     (Some \<lparr>ro_type = ''undefined'', ro_subtype = None, ro_value = JUndefined,
            ro_description = None, ro_objectId = None\<rparr>) True
     = Resolved \<lparr>v_name = ''x'', v_value = JStr ''undefined'', v_variablesReference = 0\<rparr> \<and>
   remoteObjectToVariable (\<lambda>v. []) ''x''
     (Some \<lparr>ro_type = ''object'', ro_subtype = Some ''null'', ro_value = JNull,
            ro_description = None, ro_objectId = None\<rparr>) True
     = Resolved \<lparr>v_name = ''x'', v_value = JStr ''null'', v_variablesReference = 0\<rparr>"
  using remoteObjectToVariable_plain
          [of "\<lambda>v. []" "''x''"
              "\<lparr>ro_type = ''object'', ro_subtype = None, ro_value = JUndefined,
                ro_description = None, ro_objectId = None\<rparr>" True]
        remoteObjectToVariable_plain
          [of "\<lambda>v. []" "''x''"
              "\<lparr>ro_type = ''object'', ro_subtype = None, ro_value = JNull,
                ro_description = None, ro_objectId = None\<rparr>" True]
  by simp

text \<open>
  C10. A \<open>variables\<close> request whose reference is not a registered variable handle
  resolves with an undefined body, while \<open>setVariable\<close> with such a reference rejects
  with the error \<open>setValueNotSupported\<close>.
\<close>

theorem unknown_variablesReference:
  assumes "Handles_get (variableHandles st) (va_variablesReference vargs) = None"
      and "Handles_get (variableHandles st) (sv_variablesReference sargs) = None"
  shows "variables vargs st = ResolvesUndefined \<and> setVariable sargs st = RejectsWith setValueNotSupported"
  using assms by (simp add: variables_def setVariable_def)

theorem unknown_variablesReference_witness:
  "Handles_get (variableHandles new_adapter) 1000 = None \<and>
   variables \<lparr>va_variablesReference = 1000, va_filter = None, va_start = None, va_count = None\<rparr> new_adapter
     = ResolvesUndefined \<and>
   setVariable \<lparr>sv_variablesReference = 1000, sv_name = ''x'', sv_value = ''1''\<rparr> new_adapter
     = RejectsWith setValueNotSupported"
proof -
  have h: "Handles_get (variableHandles new_adapter) 1000 = None"
    by (simp add: Handles_get_def new_adapter_def clearTargetContext_def new_Handles_def)
  show ?thesis
    using h unknown_variablesReference
              [of new_adapter "\<lparr>va_variablesReference = 1000, va_filter = None, va_start = None, va_count = None\<rparr>"
                  "\<lparr>sv_variablesReference = 1000, sv_name = ''x'', sv_value = ''1''\<rparr>"]
    by simp
qed

section \<open>Properties: the stop reason\<close>

text \<open>
  Whenever the handler runs to its end it picks the reason in the order exception,
  breakpoint, expected reason, debugger statement, keeps the exception's data, and
  clears the expected reason. It runs to its end unless it reaches the smart-step
  check with source maps on and no call frame in the notification.
\<close>

lemma onDebuggerPaused_reason:
  assumes "\<not> (n_reason n \<noteq> ''exception'' \<and> \<not> nonempty_hits (n_hitBreakpoints n) \<and>
              truthy_str (expectingStopReason st) \<and> smartStep st \<and> sourceMaps st \<and> n_callFrames n = [])"
  shows "\<exists>p st'. onDebuggerPaused basename n st =
            Inr (if n_reason n = ''exception'' then ''exception''
                 else if nonempty_hits (n_hitBreakpoints n) then ''breakpoint''
                 else if truthy_str (expectingStopReason st) then the (expectingStopReason st)
                 else ''debugger'', p, st')
          \<and> exception st' = (if n_reason n = ''exception'' then n_data n else None)
          \<and> expectingStopReason st' = None"
  using assms
  by (cases "n_callFrames n")
     (auto simp: onDebuggerPaused_def shouldSmartStep_def setOverlay_def callFrameToStackFrame_def
        Let_def Handles_create_def split: prod.splits option.splits if_splits)

text \<open>
  C1. The claim: for every \<open>Debugger.paused\<close> notification the reason is chosen as
  exception, breakpoint, the expected reason or debugger statement, and
  \<open>expectingStopReason\<close> is cleared afterwards in every case. The code misses a case:
  after a \<open>next\<close> request, with source maps and smart stepping on, a notification with an
  empty \<open>callFrames\<close> list makes the handler throw in the smart-step check (the top
  frame is \<open>undefined\<close>), so it stops before the line that clears the expected reason,
  which is still \<open>step\<close>.
\<close>

theorem onDebuggerPaused_empty_callFrames:
  "isl (onDebuggerPaused basename
          \<lparr>n_callFrames = [], n_reason = ''other'', n_data = None, n_hitBreakpoints = None\<rparr>
          (next_step (commonArgs True True new_adapter))) \<and>
   expectingStopReason
     (snd (projl (onDebuggerPaused basename
                    \<lparr>n_callFrames = [], n_reason = ''other'', n_data = None, n_hitBreakpoints = None\<rparr>
                    (next_step (commonArgs True True new_adapter))))) = Some ''step''"
  by (simp add: onDebuggerPaused_def shouldSmartStep_def next_step_def commonArgs_def new_adapter_def
      clearTargetContext_def setOverlay_def)

theorem onDebuggerPaused_empty_callFrames_witness:
  "isl (onDebuggerPaused (\<lambda>u. u)
          \<lparr>n_callFrames = [], n_reason = ''other'', n_data = None, n_hitBreakpoints = None\<rparr>
          (next_step (commonArgs True True new_adapter)))"
  using onDebuggerPaused_empty_callFrames [of "\<lambda>u. u"] by simp

section \<open>Properties: translating the responses\<close>

text \<open>
  A response with a \<open>breakpointId\<close> and no location becomes an unverified breakpoint
  carrying the handle lent for that id; a full response becomes a verified one with the
  handle, the line and the column.
\<close>

lemma responseToBreakpoint_bound:
  "responseToBreakpoint (Some \<lparr>r_breakpointId = Some b, r_actualLocation = None\<rparr>) h
     = (\<lparr>bp_id = Some (nextHandle h), bp_verified = False, bp_line = None, bp_column = None,
          bp_message = None\<rparr>, snd (ReverseHandles_create (Some b) h)) \<and>
   responseToBreakpoint (Some \<lparr>r_breakpointId = Some b, r_actualLocation = Some l\<rparr>) h
     = (\<lparr>bp_id = Some (nextHandle h), bp_verified = True, bp_line = Some (lineNumber l),
          bp_column = columnNumber l, bp_message = None\<rparr>, snd (ReverseHandles_create (Some b) h)) \<and>
   handleMap (snd (ReverseHandles_create (Some b) h)) (nextHandle h) = Some (Some b)"
  by (simp add: responseToBreakpoint_def ReverseHandles_create_def)

text \<open>
  C2. The claim: a failed add, swallowed into an empty object, is translated to an
  unverified breakpoint with no id; a response with a \<open>breakpointId\<close> and no location to
  an unverified breakpoint with the id's handle; a full response to a verified one. The
  last two hold (\<open>responseToBreakpoint_bound\<close>). For the empty object the code does not
  take the branch for a missing response: the object is truthy, so the breakpoint gets
  an id, a handle the registry lends for \<open>undefined\<close>.
\<close>

theorem failed_add_gets_id:
  "chromeBreakpointResponsesToODPBreakpoints url [Some \<lparr>r_breakpointId = None, r_actualLocation = None\<rparr>] st
     = Inr ([\<lparr>bp_id = Some (nextHandle (breakpointIdHandles st)), bp_verified = False, bp_line = None,
              bp_column = None, bp_message = None\<rparr>],
            st\<lparr>committedBreakpointsByUrl := (committedBreakpointsByUrl st)(url \<mapsto> Some []),
               breakpointIdHandles := snd (ReverseHandles_create None (breakpointIdHandles st))\<rparr>)"
  by (simp add: chromeBreakpointResponsesToODPBreakpoints_def responseToBreakpoint_def ReverseHandles_create_def)

theorem failed_add_gets_id_witness:
  "map bp_id (fst (projr (chromeBreakpointResponsesToODPBreakpoints ''http://localhost/a.js''
          [Some \<lparr>r_breakpointId = None, r_actualLocation = None\<rparr>] new_adapter))) = [Some START_HANDLE]"
  using failed_add_gets_id [of "''http://localhost/a.js''" new_adapter]
  by (simp add: new_adapter_def clearTargetContext_def new_ReverseHandles_def START_HANDLE_def)

section \<open>Properties: synthetic URLs\<close>

text \<open>
  C6 (as amended). The claim names the synthetic URL \<open>placeholder://<scriptId>\<close>; the
  protocol prefix in the code is \<open>debugadapter://\<close>. A parsed script without a URL is
  recorded, by id and by URL, under \<open>debugadapter://<scriptId>\<close>; a script with a URL
  that is not ignored is recorded under that URL, normalised. Breakpoints for a
  URL made of that prefix and a script id are set with \<open>Debugger.setBreakpoint\<close> at
  (script id, line, column); breakpoints for a URL that does not start with the prefix
  are set with \<open>Debugger.setBreakpointByUrl\<close> and the URL's regex.
\<close>

theorem synthetic_url:
  "(s_url script = [] \<longrightarrow>
      scriptsByUrl (onScriptParsed fixUrl script st) (''debugadapter://'' @ s_scriptId script)
        = Some (script\<lparr>s_url := ''debugadapter://'' @ s_scriptId script\<rparr>) \<and>
      scriptsById (onScriptParsed fixUrl script st) (s_scriptId script)
        = Some (script\<lparr>s_url := ''debugadapter://'' @ s_scriptId script\<rparr>)) \<and>
   (s_url script \<noteq> [] \<and> \<not> shouldIgnoreScript script \<longrightarrow>
      scriptsByUrl (onScriptParsed fixUrl script st) (fixUrl (s_url script))
        = Some (script\<lparr>s_url := fixUrl (s_url script)\<rparr>)) \<and>
   addBreakpoints_requests pathToRegex (''debugadapter://'' @ sid) bps
     = map (\<lambda>bp. Debugger_setBreakpoint sid (sb_line bp) (column_or_0 (sb_column bp)) (sb_condition bp)) bps \<and>
   (\<not> prefix ''debugadapter://'' url \<longrightarrow>
      addBreakpoints_requests pathToRegex url bps
        = map (\<lambda>bp. Debugger_setBreakpointByUrl (pathToRegex url) (sb_line bp) (column_or_0 (sb_column bp))
                 (sb_condition bp)) bps) \<and>
   chromeCalls (addBreakpoints pathToRegex url bps st)
     = chromeCalls st @ addBreakpoints_requests pathToRegex url bps"
  by (simp add: onScriptParsed_def shouldIgnoreScript_def PLACEHOLDER_URL_PROTOCOL_def
      addBreakpoints_requests_def lstrip_def addBreakpoints_def Let_def)

theorem synthetic_url_witness:
  "scriptsByUrl (onScriptParsed (\<lambda>u. u) \<lparr>s_scriptId = ''42'', s_url = [], s_sourceMapURL = None\<rparr> new_adapter)
     ''debugadapter://42''
     = Some \<lparr>s_scriptId = ''42'', s_url = ''debugadapter://42'', s_sourceMapURL = None\<rparr> \<and>
   addBreakpoints_requests (\<lambda>u. u) ''debugadapter://42''
     [\<lparr>sb_line = 3, sb_column = None, sb_condition = None\<rparr>]
     = [Debugger_setBreakpoint ''42'' 3 0 None] \<and>
   \<not> prefix ''debugadapter://'' ''http://localhost/a.js'' \<and>
   addBreakpoints_requests (\<lambda>u. u) ''http://localhost/a.js''
     [\<lparr>sb_line = 3, sb_column = Some 4, sb_condition = None\<rparr>]
     = [Debugger_setBreakpointByUrl ''http://localhost/a.js'' 3 4 None]"
  using synthetic_url
          [of "\<lparr>s_scriptId = ''42'', s_url = [], s_sourceMapURL = None\<rparr>" "\<lambda>u. u" new_adapter
              "\<lambda>u. u" "''42''" "[\<lparr>sb_line = 3, sb_column = None, sb_condition = None\<rparr>]"
              "''http://localhost/a.js''"]
        synthetic_url
          [of "\<lparr>s_scriptId = ''42'', s_url = [], s_sourceMapURL = None\<rparr>" "\<lambda>u. u" new_adapter
              "\<lambda>u. u" "''42''" "[\<lparr>sb_line = 3, sb_column = Some 4, sb_condition = None\<rparr>]"
              "''http://localhost/a.js''"]
  by simp

text \<open>
  C6 as stated fails: a script without a URL and with id 42 is not recorded under
  \<open>placeholder://42\<close>; it is recorded under \<open>debugadapter://42\<close>.
\<close>

theorem script_without_url_not_under_placeholder:
  "scriptsByUrl (onScriptParsed (\<lambda>u. u) \<lparr>s_scriptId = ''42'', s_url = [], s_sourceMapURL = None\<rparr> new_adapter)
      ''placeholder://42'' = None \<and>
   scriptsByUrl (onScriptParsed (\<lambda>u. u) \<lparr>s_scriptId = ''42'', s_url = [], s_sourceMapURL = None\<rparr> new_adapter)
      ''debugadapter://42'' = Some \<lparr>s_scriptId = ''42'', s_url = ''debugadapter://42'', s_sourceMapURL = None\<rparr>"
  by (simp add: onScriptParsed_def shouldIgnoreScript_def new_adapter_def clearTargetContext_def
      PLACEHOLDER_URL_PROTOCOL_def Let_def)

section \<open>Properties: the request queue\<close>

text \<open>Whatever the work does, the queue left behind is fulfilled within the timeout.\<close>

lemma queue_never_rejects:
  "\<exists>t v. setBreakpointsRequestQ (snd (setBreakpoints_queued work tb st)) = Some (t, Fulfilled v) \<and> t \<le> 3000"
  by (auto simp: setBreakpoints_queued_def promiseTimeout_def then_p_def catch_undefined_def
      SET_BREAKPOINTS_TIMEOUT_def Let_def split: option.splits prod.splits outcome.splits)

text \<open>
  C3. When the work of a \<open>setBreakpoints\<close> call (waiting for the queue, clearing, adding,
  translating) does not settle within 3000 ms, the promise handed to the caller is
  rejected at 3000 ms with the message \<open>Set breakpoints request timed out\<close>, while the
  queue kept in the adapter is fulfilled (with \<open>undefined\<close>) at that moment: work
  chained on it by a later call starts then and settles as it would by itself.
\<close>

theorem setBreakpoints_timeout:
  assumes "\<forall>t. map_option fst (then_p (setBreakpointsRequestQ st) (\<lambda>_. work)) = Some t
                \<longrightarrow> SET_BREAKPOINTS_TIMEOUT < t"
  shows "fst (setBreakpoints_queued work tb st) = Some (3000, Rejected ''Set breakpoints request timed out'')
       \<and> setBreakpointsRequestQ (snd (setBreakpoints_queued work tb st)) = Some (3000, Fulfilled None)
       \<and> then_p (setBreakpointsRequestQ (snd (setBreakpoints_queued work tb st))) (\<lambda>_. Some (d, r))
           = Some (3000 + d, r)"
  using assms
  by (auto simp: setBreakpoints_queued_def promiseTimeout_def then_p_def catch_undefined_def
      SET_BREAKPOINTS_TIMEOUT_def Let_def split: option.splits prod.splits outcome.splits)

theorem setBreakpoints_timeout_witness:
  "map_option fst (then_p (setBreakpointsRequestQ new_adapter) (\<lambda>_. Some (5000, Fulfilled \<lparr>breakpoints = []\<rparr>)))
     = Some 5000
   \<and> fst (setBreakpoints_queued (Some (5000, Fulfilled \<lparr>breakpoints = []\<rparr>)) id new_adapter)
        = Some (3000, Rejected ''Set breakpoints request timed out'')
   \<and> setBreakpointsRequestQ (snd (setBreakpoints_queued (Some (5000, Fulfilled \<lparr>breakpoints = []\<rparr>)) id new_adapter))
        = Some (3000, Fulfilled None)
   \<and> then_p (setBreakpointsRequestQ (snd (setBreakpoints_queued (Some (5000, Fulfilled \<lparr>breakpoints = []\<rparr>)) id new_adapter)))
        (\<lambda>_. Some (7, Fulfilled \<lparr>breakpoints = []\<rparr>)) = Some (3007, Fulfilled \<lparr>breakpoints = []\<rparr>)"
proof -
  have e: "map_option fst (then_p (setBreakpointsRequestQ new_adapter) (\<lambda>_. Some (5000, Fulfilled \<lparr>breakpoints = []\<rparr>)))
             = Some 5000"
    by (simp add: then_p_def new_adapter_def clearTargetContext_def Promise_resolve_def)
  have h: "\<forall>t. map_option fst (then_p (setBreakpointsRequestQ new_adapter) (\<lambda>_. Some (5000, Fulfilled \<lparr>breakpoints = []\<rparr>)))
                  = Some t \<longrightarrow> SET_BREAKPOINTS_TIMEOUT < t"
    by (simp add: e SET_BREAKPOINTS_TIMEOUT_def)
  show ?thesis
    using e setBreakpoints_timeout [OF h, where tb = id and d = 7 and r = "Fulfilled \<lparr>breakpoints = []\<rparr>"]
    by (simp add: then_p_def)
qed

section \<open>Properties: unverified responses and pending breakpoints\<close>

lemma unverifiedBreakpoints_ids:
  "map bp_id (fst (unverifiedBreakpoints m bps n h))
     = map (\<lambda>i. Some (nextHandle h + i)) [0 ..< length bps]"
proof (induction bps arbitrary: n h)
  case Nil show ?case by simp
next
  case (Cons bp bps)
  have u: "[0 ..< Suc (length bps)] = 0 # map Suc [0 ..< length bps]"
    by (simp add: upt_conv_Cons map_Suc_upt del: upt_Suc)
  show ?case
    using Cons.IH [of "Suc n" "snd (ReverseHandles_create (Some (string_of_nat n)) h)"]
    by (simp add: u split_beta Let_def ReverseHandles_create_def comp_def del: string_of_nat.simps upt_Suc)
qed

lemma unverifiedBreakpoints_nextHandle:
  "nextHandle (snd (snd (unverifiedBreakpoints m bps n h))) = nextHandle h + length bps"
proof (induction bps arbitrary: n h)
  case Nil show ?case by simp
next
  case (Cons bp bps)
  show ?case
    using Cons.IH [of "Suc n" "snd (ReverseHandles_create (Some (string_of_nat n)) h)"]
    by (simp add: split_beta Let_def ReverseHandles_create_def del: string_of_nat.simps)
qed

lemma unverifiedBreakpoints_counter:
  "fst (snd (unverifiedBreakpoints m bps n h)) = n + length bps"
proof (induction bps arbitrary: n h)
  case Nil show ?case by simp
next
  case (Cons bp bps)
  show ?case
    using Cons.IH [of "Suc n" "snd (ReverseHandles_create (Some (string_of_nat n)) h)"]
    by (simp add: split_beta Let_def del: string_of_nat.simps)
qed

lemma unverifiedBreakpoints_fields:
  "map bp_verified (fst (unverifiedBreakpoints m bps n h)) = replicate (length bps) False \<and>
   map bp_line (fst (unverifiedBreakpoints m bps n h)) = map (\<lambda>bp. Some (sb_line bp)) bps \<and>
   map bp_column (fst (unverifiedBreakpoints m bps n h)) = map sb_column bps \<and>
   map bp_message (fst (unverifiedBreakpoints m bps n h)) = replicate (length bps) m"
proof (induction bps arbitrary: n h)
  case Nil show ?case by simp
next
  case (Cons bp bps)
  show ?case
    using Cons.IH [of "Suc n" "snd (ReverseHandles_create (Some (string_of_nat n)) h)"]
    by (simp add: split_beta Let_def del: string_of_nat.simps)
qed

lemma unverifiedBreakpoints_keeps:
  "k < nextHandle h \<Longrightarrow>
   handleMap (snd (snd (unverifiedBreakpoints m bps n h))) k = handleMap h k"
proof (induction bps arbitrary: n h)
  case Nil show ?case by simp
next
  case (Cons bp bps)
  show ?case
    using Cons.prems Cons.IH [of "snd (ReverseHandles_create (Some (string_of_nat n)) h)" "Suc n"]
    by (simp add: split_beta Let_def ReverseHandles_create_def del: string_of_nat.simps)
qed

lemma unverifiedBreakpoints_registers:
  "i < length bps \<Longrightarrow>
   handleMap (snd (snd (unverifiedBreakpoints m bps n h))) (nextHandle h + i)
     = Some (Some (string_of_nat (n + i)))"
proof (induction bps arbitrary: n h i)
  case Nil then show ?case by simp
next
  case (Cons bp bps)
  show ?case
  proof (cases i)
    case 0
    then show ?thesis
      using unverifiedBreakpoints_keeps
              [of "nextHandle h" "snd (ReverseHandles_create (Some (string_of_nat n)) h)" m bps "Suc n"]
      by (simp add: split_beta Let_def ReverseHandles_create_def del: string_of_nat.simps)
  next
    case (Suc j)
    then show ?thesis
      using Cons.prems Cons.IH [of j "Suc n" "snd (ReverseHandles_create (Some (string_of_nat n)) h)"]
      by (simp add: split_beta Let_def ReverseHandles_create_def del: string_of_nat.simps)
  qed
qed


lemma unverifiedBpResponse_body:
  "map bp_verified (breakpoints (fst (unverifiedBpResponse args m st)))
     = replicate (length (a_breakpoints args)) False \<and>
   map bp_id (breakpoints (fst (unverifiedBpResponse args m st)))
     = map (\<lambda>i. Some (nextHandle (breakpointIdHandles st) + i)) [0 ..< length (a_breakpoints args)] \<and>
   map bp_line (breakpoints (fst (unverifiedBpResponse args m st)))
     = map (\<lambda>bp. Some (sb_line bp)) (a_breakpoints args) \<and>
   map bp_column (breakpoints (fst (unverifiedBpResponse args m st))) = map sb_column (a_breakpoints args) \<and>
   map bp_message (breakpoints (fst (unverifiedBpResponse args m st)))
     = replicate (length (a_breakpoints args)) m"
  using unverifiedBreakpoints_fields [of m "a_breakpoints args" "nextUnboundBreakpointId st" "breakpointIdHandles st"]
        unverifiedBreakpoints_ids [of m "a_breakpoints args" "nextUnboundBreakpointId st" "breakpointIdHandles st"]
  by (simp add: unverifiedBpResponse_def split_beta Let_def)

lemma unverifiedBpResponse_registry:
  "nextHandle (breakpointIdHandles (snd (unverifiedBpResponse args m st)))
     = nextHandle (breakpointIdHandles st) + length (a_breakpoints args) \<and>
   nextUnboundBreakpointId (snd (unverifiedBpResponse args m st))
     = nextUnboundBreakpointId st + length (a_breakpoints args) \<and>
   (\<forall>i < length (a_breakpoints args).
      Handles_get (breakpointIdHandles (snd (unverifiedBpResponse args m st)))
          (nextHandle (breakpointIdHandles st) + i)
        = Some (Some (string_of_nat (nextUnboundBreakpointId st + i))))"
  using unverifiedBreakpoints_nextHandle [of m "a_breakpoints args" "nextUnboundBreakpointId st" "breakpointIdHandles st"]
        unverifiedBreakpoints_counter [of m "a_breakpoints args" "nextUnboundBreakpointId st" "breakpointIdHandles st"]
        unverifiedBreakpoints_registers [of _ "a_breakpoints args" m "nextUnboundBreakpointId st" "breakpointIdHandles st"]
  by (simp add: unverifiedBpResponse_def split_beta Let_def Handles_get_def del: string_of_nat.simps)

lemma unverifiedBpResponse_pending:
  "pendingBreakpointsByUrl (snd (unverifiedBpResponse args m st)) =
     (if truthy_str (src_path (a_source args))
      then (pendingBreakpointsByUrl st)
             (the (src_path (a_source args)) \<mapsto>
                \<lparr>pb_args = args, pb_ids = map bp_id (breakpoints (fst (unverifiedBpResponse args m st)))\<rparr>)
      else pendingBreakpointsByUrl st)"
  by (simp add: unverifiedBpResponse_def split_beta Let_def)

lemma validateBreakpointsPath_fails:
  "validateBreakpointsPath gp tp args = Some e \<Longrightarrow> truthy_str (src_path (a_source args))"
  by (auto simp: validateBreakpointsPath_def Let_def split: if_splits)

lemma setBreakpoints_unverified_route:
  assumes "setBreakpoints gp tp tr args0 st = (AnswersUnverified body, st')"
  shows "(\<exists>e. validateBreakpointsPath gp tp args0 = Some e \<and>
              (body, st') = unverifiedBpResponse args0 (Some e) st) \<or>
         (validateBreakpointsPath gp tp args0 = None \<and> \<not> truthy_str (src_path (a_source (tr args0))) \<and>
              (body, st') = unverifiedBpResponse (tr args0) (Some ''Can't find script for breakpoint request'') st)"
  using assms
  by (auto simp: setBreakpoints_def Let_def split: option.splits if_splits prod.splits)

lemma setBreakpoints_answers_unverified:
  assumes "validateBreakpointsPath gp tp args0 \<noteq> None \<or>
     (\<not> truthy_str (src_path (a_source (tr args0))) \<and>
      (\<not> truthy_num (src_sourceReference (a_source (tr args0))) \<or>
       (\<exists>handle. Handles_get (sourceHandles st) (the (src_sourceReference (a_source (tr args0)))) = Some handle \<and>
          (\<forall>s. (case sc_scriptId handle of None \<Rightarrow> None | Some sid \<Rightarrow> scriptsById st sid) = Some s
                 \<longrightarrow> s_url s = []))))"
  shows "\<exists>body st'. setBreakpoints gp tp tr args0 st = (AnswersUnverified body, st')"
  using assms
  by (auto simp: setBreakpoints_def Let_def split_beta split: option.splits)

lemma unverified_answer_properties:
  assumes "setBreakpoints gp tp tr args0 st = (AnswersUnverified body, st')"
  shows "let args = (if validateBreakpointsPath gp tp args0 = None then tr args0 else args0) in
     map bp_verified (breakpoints body) = replicate (length (a_breakpoints args)) False \<and>
     map bp_id (breakpoints body)
       = map (\<lambda>i. Some (nextHandle (breakpointIdHandles st) + i)) [0 ..< length (a_breakpoints args)] \<and>
     nextHandle (breakpointIdHandles st') = nextHandle (breakpointIdHandles st) + length (a_breakpoints args) \<and>
     (\<forall>i < length (a_breakpoints args).
        Handles_get (breakpointIdHandles st') (nextHandle (breakpointIdHandles st) + i)
          = Some (Some (string_of_nat (nextUnboundBreakpointId st + i)))) \<and>
     (if validateBreakpointsPath gp tp args0 = None
      then \<not> truthy_str (src_path (a_source args)) \<and>
           pendingBreakpointsByUrl st' = pendingBreakpointsByUrl st
      else truthy_str (src_path (a_source args)) \<and>
           pendingBreakpointsByUrl st' =
             (pendingBreakpointsByUrl st)
               (the (src_path (a_source args)) \<mapsto> \<lparr>pb_args = args, pb_ids = map bp_id (breakpoints body)\<rparr>))"
proof -
  let ?m = "Some ''Can't find script for breakpoint request''"
  show ?thesis
    using setBreakpoints_unverified_route [OF assms]
  proof (elim disjE exE conjE)
    fix e
    assume v: "validateBreakpointsPath gp tp args0 = Some e"
      and u: "(body, st') = unverifiedBpResponse args0 (Some e) st"
    have b: "body = fst (unverifiedBpResponse args0 (Some e) st)"
      and s: "st' = snd (unverifiedBpResponse args0 (Some e) st)"
      using u by (metis fst_conv, metis snd_conv)
    show ?thesis
      using unverifiedBpResponse_body [of args0 "Some e" st]
            unverifiedBpResponse_registry [of args0 "Some e" st]
            unverifiedBpResponse_pending [of args0 "Some e" st]
            validateBreakpointsPath_fails [OF v] v
      by (simp add: b s Let_def del: string_of_nat.simps)
  next
    assume v: "validateBreakpointsPath gp tp args0 = None"
      and t: "\<not> truthy_str (src_path (a_source (tr args0)))"
      and u: "(body, st') = unverifiedBpResponse (tr args0) ?m st"
    have b: "body = fst (unverifiedBpResponse (tr args0) ?m st)"
      and s: "st' = snd (unverifiedBpResponse (tr args0) ?m st)"
      using u by (metis fst_conv, metis snd_conv)
    show ?thesis
      using unverifiedBpResponse_body [of "tr args0" ?m st]
            unverifiedBpResponse_registry [of "tr args0" ?m st]
            unverifiedBpResponse_pending [of "tr args0" ?m st]
            v t
      by (simp add: b s Let_def del: string_of_nat.simps)
  qed
qed

text \<open>
  C4 (as amended). A \<open>setBreakpoints\<close> call finds no target script when the validation
  of the path fails, or when the rewritten request has no source path and either no
  source reference or a reference to a source whose script has no record (or one
  without a URL). Every such call answers with an unverified response: every breakpoint
  of it is unverified and its id is newly lent by the registry of breakpoint ids (the
  ids are the registry's next handles, in order, each registered for the text of the
  next unbound-breakpoint number). When the validation fails, the request has a source
  path (the client's), and the pending record of the request and the ids is stored
  under that path, in place of whatever was stored there. When the validation passes,
  the request has no source path, and no pending record is stored.
\<close>

theorem setBreakpoints_unverified:
  assumes "validateBreakpointsPath gp tp args0 \<noteq> None \<or>
     (\<not> truthy_str (src_path (a_source (tr args0))) \<and>
      (\<not> truthy_num (src_sourceReference (a_source (tr args0))) \<or>
       (\<exists>handle. Handles_get (sourceHandles st) (the (src_sourceReference (a_source (tr args0)))) = Some handle \<and>
          (\<forall>s. (case sc_scriptId handle of None \<Rightarrow> None | Some sid \<Rightarrow> scriptsById st sid) = Some s
                 \<longrightarrow> s_url s = []))))"
  shows "\<exists>body st'. setBreakpoints gp tp tr args0 st = (AnswersUnverified body, st') \<and>
    (let args = (if validateBreakpointsPath gp tp args0 = None then tr args0 else args0) in
     map bp_verified (breakpoints body) = replicate (length (a_breakpoints args)) False \<and>
     map bp_id (breakpoints body)
       = map (\<lambda>i. Some (nextHandle (breakpointIdHandles st) + i)) [0 ..< length (a_breakpoints args)] \<and>
     nextHandle (breakpointIdHandles st') = nextHandle (breakpointIdHandles st) + length (a_breakpoints args) \<and>
     (\<forall>i < length (a_breakpoints args).
        Handles_get (breakpointIdHandles st') (nextHandle (breakpointIdHandles st) + i)
          = Some (Some (string_of_nat (nextUnboundBreakpointId st + i)))) \<and>
     (if validateBreakpointsPath gp tp args0 = None
      then \<not> truthy_str (src_path (a_source args)) \<and>
           pendingBreakpointsByUrl st' = pendingBreakpointsByUrl st
      else truthy_str (src_path (a_source args)) \<and>
           pendingBreakpointsByUrl st' =
             (pendingBreakpointsByUrl st)
               (the (src_path (a_source args)) \<mapsto> \<lparr>pb_args = args, pb_ids = map bp_id (breakpoints body)\<rparr>)))"
proof -
  obtain body st' where r: "setBreakpoints gp tp tr args0 st = (AnswersUnverified body, st')"
    using assms setBreakpoints_answers_unverified [of gp tp args0 tr st] by blast
  show ?thesis
    using r unverified_answer_properties [OF r] by blast
qed

theorem setBreakpoints_unverified_witness:
  "fst (setBreakpoints (\<lambda>p. None) (\<lambda>p. None) (\<lambda>a. a)
          \<lparr>a_source = \<lparr>src_name = None, src_path = Some ''/x/foo.js'', src_sourceReference = None\<rparr>,
           a_breakpoints = [\<lparr>sb_line = 10, sb_column = None, sb_condition = None\<rparr>]\<rparr> new_adapter)
     = AnswersUnverified
         \<lparr>breakpoints =
            [\<lparr>bp_id = Some START_HANDLE, bp_verified = False, bp_line = Some 10, bp_column = None,
              bp_message = Some ''Breakpoint ignored because generated code not found (source map problem?).''\<rparr>]\<rparr> \<and>
   pendingBreakpointsByUrl
     (snd (setBreakpoints (\<lambda>p. None) (\<lambda>p. None) (\<lambda>a. a)
          \<lparr>a_source = \<lparr>src_name = None, src_path = Some ''/x/foo.js'', src_sourceReference = None\<rparr>,
           a_breakpoints = [\<lparr>sb_line = 10, sb_column = None, sb_condition = None\<rparr>]\<rparr> new_adapter))
     ''/x/foo.js''
     = Some \<lparr>pb_args = \<lparr>a_source = \<lparr>src_name = None, src_path = Some ''/x/foo.js'', src_sourceReference = None\<rparr>,
                          a_breakpoints = [\<lparr>sb_line = 10, sb_column = None, sb_condition = None\<rparr>]\<rparr>,
             pb_ids = [Some START_HANDLE]\<rparr>"
proof -
  let ?args = "\<lparr>a_source = \<lparr>src_name = None, src_path = Some ''/x/foo.js'', src_sourceReference = None\<rparr>,
                a_breakpoints = [\<lparr>sb_line = 10, sb_column = None, sb_condition = None\<rparr>]\<rparr>"
  let ?body = "\<lparr>breakpoints =
            [\<lparr>bp_id = Some START_HANDLE, bp_verified = False, bp_line = Some 10, bp_column = None,
              bp_message = Some ''Breakpoint ignored because generated code not found (source map problem?).''\<rparr>]\<rparr>"
  let ?r = "setBreakpoints (\<lambda>p. None) (\<lambda>p. None) (\<lambda>a. a) ?args new_adapter"
  have v: "validateBreakpointsPath (\<lambda>p. None) (\<lambda>p. None) ?args
             = Some ''Breakpoint ignored because generated code not found (source map problem?).''"
    by (simp add: validateBreakpointsPath_def)
  have f: "fst ?r = AnswersUnverified ?body"
    by (simp add: setBreakpoints_def v unverifiedBpResponse_def ReverseHandles_create_def new_adapter_def
        clearTargetContext_def new_ReverseHandles_def START_HANDLE_def)
  obtain body st' where r: "?r = (AnswersUnverified body, st')"
    and q: "pendingBreakpointsByUrl st' =
              (pendingBreakpointsByUrl new_adapter)
                (''/x/foo.js'' \<mapsto> \<lparr>pb_args = ?args, pb_ids = map bp_id (breakpoints body)\<rparr>)"
    using setBreakpoints_unverified
            [where gp = "\<lambda>p. None" and tp = "\<lambda>p. None" and tr = "\<lambda>a. a" and ?args0.0 = ?args
               and st = new_adapter]
    by (auto simp: v Let_def)
  have b: "body = ?body" and s: "st' = snd ?r"
    using r f by simp_all
  show ?thesis
    using f q by (simp add: b s [symmetric])
qed

text \<open>
  C4 as stated fails: a request that names its source by a reference alone, for a
  source whose script the adapter has no record of, gets an unverified response, and no
  pending record is stored under any path. (A reference that is not registered at all
  makes the call throw instead of answering.)
\<close>

theorem unknown_script_without_path_not_pending:
  "fst (setBreakpoints (\<lambda>p. None) (\<lambda>p. None) (\<lambda>a. a)
          \<lparr>a_source = \<lparr>src_name = None, src_path = None, src_sourceReference = Some START_HANDLE\<rparr>,
           a_breakpoints = [\<lparr>sb_line = 3, sb_column = None, sb_condition = None\<rparr>]\<rparr>
          (run (\<lambda>u. u) (\<lambda>u. u)
            [EvPaused \<lparr>n_callFrames = [\<lparr>callFrameId = ''0'', functionName = ''f'',
                                   location = \<lparr>scriptId = ''7'', lineNumber = 1, columnNumber = Some 0\<rparr>\<rparr>],
                  n_reason = ''other'', n_data = None, n_hitBreakpoints = None\<rparr> False,
             EvStackTrace None] new_adapter))
     = AnswersUnverified \<lparr>breakpoints = [\<lparr>bp_id = Some START_HANDLE, bp_verified = False, bp_line = Some 3,
                                          bp_column = None,
                                          bp_message = Some ''Can't find script for breakpoint request''\<rparr>]\<rparr> \<and>
   dom (pendingBreakpointsByUrl (snd (setBreakpoints (\<lambda>p. None) (\<lambda>p. None) (\<lambda>a. a)
          \<lparr>a_source = \<lparr>src_name = None, src_path = None, src_sourceReference = Some START_HANDLE\<rparr>,
           a_breakpoints = [\<lparr>sb_line = 3, sb_column = None, sb_condition = None\<rparr>]\<rparr>
          (run (\<lambda>u. u) (\<lambda>u. u)
            [EvPaused \<lparr>n_callFrames = [\<lparr>callFrameId = ''0'', functionName = ''f'',
                                   location = \<lparr>scriptId = ''7'', lineNumber = 1, columnNumber = Some 0\<rparr>\<rparr>],
                  n_reason = ''other'', n_data = None, n_hitBreakpoints = None\<rparr> False,
             EvStackTrace None] new_adapter)))) = {} \<and>
   fst (setBreakpoints (\<lambda>p. None) (\<lambda>p. None) (\<lambda>a. a)
          \<lparr>a_source = \<lparr>src_name = None, src_path = None, src_sourceReference = Some START_HANDLE\<rparr>,
           a_breakpoints = [\<lparr>sb_line = 3, sb_column = None, sb_condition = None\<rparr>]\<rparr> new_adapter)
     = Throws TypeError"
  by (simp add: new_adapter_def clearTargetContext_def onDebuggerPaused_def setOverlay_def Let_def
      onDebuggerPaused_then_def stackTrace_def callFrameToStackFrame_def Handles_create_def Handles_reset_def
      Handles_get_def START_HANDLE_def new_Handles_def Promise_resolve_def
      setBreakpoints_def validateBreakpointsPath_def unverifiedBpResponse_def ReverseHandles_create_def
      new_ReverseHandles_def)

section \<open>Properties: the stack and the handles while running\<close>

lemma callFrameToStackFrame_currentStack:
  "currentStack (snd (callFrameToStackFrame b f st)) = currentStack st"
  by (simp add: callFrameToStackFrame_def Let_def split: prod.splits option.splits)

lemma callFramesToStackFrames_currentStack:
  "currentStack (snd (callFramesToStackFrames b fs st)) = currentStack st"
proof (induction fs arbitrary: st)
  case Nil show ?case by simp
next
  case (Cons f fs)
  show ?case
    using Cons.IH [of "snd (callFrameToStackFrame b f st)"] callFrameToStackFrame_currentStack [of b f st]
    by (simp add: split_beta Let_def)
qed

lemma onDebuggerPaused_currentStack:
  "currentStack (case onDebuggerPaused b n st of Inl (e, st1) \<Rightarrow> st1 | Inr (reason, p, st1) \<Rightarrow> st1)
     = Some (n_callFrames n)"
  using callFrameToStackFrame_currentStack [of b _ "(setOverlay (Some PAGE_PAUSE_MESSAGE)
                  (st\<lparr>variableHandles := Handles_reset (variableHandles st),
                      frameHandles := Handles_reset (frameHandles st),
                      sourceHandles := Handles_reset (sourceHandles st),
                      exception := None\<rparr>))\<lparr>currentStack := Some (n_callFrames n)\<rparr>"]
  by (cases "n_callFrames n")
     (auto simp: onDebuggerPaused_def shouldSmartStep_def Let_def setOverlay_def split_beta
         split: sum.splits option.splits prod.splits)

lemma onDebuggerPaused_then_currentStack:
  "currentStack (onDebuggerPaused_then s r st) = currentStack st"
  by (simp add: onDebuggerPaused_then_def stepIn_def Let_def)

lemma handle_event_currentStack:
  "currentStack (handle_event b f ev st) =
     (case ev of EvPaused n m \<Rightarrow> Some (n_callFrames n) | EvResumed \<Rightarrow> None | _ \<Rightarrow> currentStack st)"
proof (cases ev)
  case (EvPaused n m)
  then show ?thesis
    using onDebuggerPaused_currentStack [of b n st]
    by (auto simp: onDebuggerPaused_then_currentStack split: sum.splits prod.splits)
next
  case (EvStackTrace levels)
  then show ?thesis
    using callFramesToStackFrames_currentStack
    by (auto simp: stackTrace_def split: sum.splits option.splits prod.splits)
       (metis snd_conv)+
qed (simp_all add: onDebuggerResumed_def setOverlay_def Let_def onGlobalObjectCleared_def clearTargetContext_def
       onScriptParsed_def continue_def next_step_def stepIn_def stepOut_def pause_def)

lemma run_currentStack:
  "(currentStack (run b f evs st) = None) = (\<not> paused_after (currentStack st \<noteq> None) evs)"
proof (induction evs arbitrary: st)
  case Nil show ?case by simp
next
  case (Cons ev evs)
  show ?case
    using Cons.IH [of "handle_event b f ev st"] handle_event_currentStack [of b f ev st]
    by (cases ev) simp_all
qed

lemma onDebuggerPaused_lends:
  "Handles_get (variableHandles (case onDebuggerPaused b n st of Inl (e, st1) \<Rightarrow> st1 | Inr (reason, p, st1) \<Rightarrow> st1)) k = None \<and>
   Handles_get (frameHandles (case onDebuggerPaused b n st of Inl (e, st1) \<Rightarrow> st1 | Inr (reason, p, st1) \<Rightarrow> st1)) k =
     (if (n_reason n \<noteq> ''exception'' \<and> \<not> nonempty_hits (n_hitBreakpoints n) \<and>
          truthy_str (expectingStopReason st) \<and> smartStep st \<and> sourceMaps st \<and> n_callFrames n \<noteq> []) \<and>
         k = START_HANDLE
      then Some (if functionName (hd (n_callFrames n)) \<noteq> [] \<or>
                    scriptsById st (scriptId (location (hd (n_callFrames n)))) \<noteq> None
                 then Some (hd (n_callFrames n)) else None)
      else None) \<and>
   Handles_get (sourceHandles (case onDebuggerPaused b n st of Inl (e, st1) \<Rightarrow> st1 | Inr (reason, p, st1) \<Rightarrow> st1)) k =
     (if (n_reason n \<noteq> ''exception'' \<and> \<not> nonempty_hits (n_hitBreakpoints n) \<and>
          truthy_str (expectingStopReason st) \<and> smartStep st \<and> sourceMaps st \<and> n_callFrames n \<noteq> []) \<and>
         k = START_HANDLE
      then Some \<lparr>sc_scriptId =
                   Some (case scriptsById st (scriptId (location (hd (n_callFrames n)))) of
                           None \<Rightarrow> scriptId (location (hd (n_callFrames n)))
                         | Some s \<Rightarrow> if \<not> shouldIgnoreScript s then s_scriptId s
                                     else scriptId (location (hd (n_callFrames n)))),
                 sc_contents = None, sc_mappedPath = None\<rparr>
      else None)"
  by (cases "n_callFrames n")
     (auto simp: onDebuggerPaused_def shouldSmartStep_def Let_def setOverlay_def split_beta Handles_reset_def
         callFrameToStackFrame_def Handles_create_def Handles_get_def
         split: sum.splits option.splits prod.splits)

lemma onDebuggerPaused_then_handles:
  "variableHandles (onDebuggerPaused_then s r st) = variableHandles st \<and>
   frameHandles (onDebuggerPaused_then s r st) = frameHandles st \<and>
   sourceHandles (onDebuggerPaused_then s r st) = sourceHandles st"
  by (simp add: onDebuggerPaused_then_def stepIn_def Let_def)

lemma paused_event_handles:
  "Handles_get (variableHandles (handle_event basename fixUrl (EvPaused n m) st)) k = None \<and>
   Handles_get (frameHandles (handle_event basename fixUrl (EvPaused n m) st)) k =
     (if (n_reason n \<noteq> ''exception'' \<and> \<not> nonempty_hits (n_hitBreakpoints n) \<and>
          truthy_str (expectingStopReason st) \<and> smartStep st \<and> sourceMaps st \<and> n_callFrames n \<noteq> []) \<and>
         k = START_HANDLE
      then Some (if functionName (hd (n_callFrames n)) \<noteq> [] \<or>
                    scriptsById st (scriptId (location (hd (n_callFrames n)))) \<noteq> None
                 then Some (hd (n_callFrames n)) else None)
      else None) \<and>
   Handles_get (sourceHandles (handle_event basename fixUrl (EvPaused n m) st)) k =
     (if (n_reason n \<noteq> ''exception'' \<and> \<not> nonempty_hits (n_hitBreakpoints n) \<and>
          truthy_str (expectingStopReason st) \<and> smartStep st \<and> sourceMaps st \<and> n_callFrames n \<noteq> []) \<and>
         k = START_HANDLE
      then Some \<lparr>sc_scriptId =
                   Some (case scriptsById st (scriptId (location (hd (n_callFrames n)))) of
                           None \<Rightarrow> scriptId (location (hd (n_callFrames n)))
                         | Some s \<Rightarrow> if \<not> shouldIgnoreScript s then s_scriptId s
                                     else scriptId (location (hd (n_callFrames n)))),
                 sc_contents = None, sc_mappedPath = None\<rparr>
      else None)"
  using onDebuggerPaused_lends [of basename n st k]
  by (cases "onDebuggerPaused basename n st")
     (auto simp: onDebuggerPaused_then_handles Handles_get_def split: prod.splits)

text \<open>
  C8 (as amended). Whenever the adapter is not paused (no pause yet, or a resume after
  the last pause) the current stack is empty. \<open>Debugger.resumed\<close> leaves the registries
  of frame, variable and source handles as they are, so the handles lent during the
  pause still resolve. They are dropped by the next \<open>Debugger.paused\<close>: after it no
  variable handle resolves, and a frame or source handle resolves only if it is the
  first handle and the smart-step check has just lent it for the top frame of the new
  notification.
\<close>

theorem not_paused_stack_and_handles:
  "(\<not> paused_after False evs \<longrightarrow> currentStack (run basename fixUrl evs new_adapter) = None) \<and>
   frameHandles (onDebuggerResumed st) = frameHandles st \<and>
   variableHandles (onDebuggerResumed st) = variableHandles st \<and>
   sourceHandles (onDebuggerResumed st) = sourceHandles st \<and>
   Handles_get (variableHandles (handle_event basename fixUrl (EvPaused n m) st)) k = None \<and>
   Handles_get (frameHandles (handle_event basename fixUrl (EvPaused n m) st)) k =
     (if (n_reason n \<noteq> ''exception'' \<and> \<not> nonempty_hits (n_hitBreakpoints n) \<and>
          truthy_str (expectingStopReason st) \<and> smartStep st \<and> sourceMaps st \<and> n_callFrames n \<noteq> []) \<and>
         k = START_HANDLE
      then Some (if functionName (hd (n_callFrames n)) \<noteq> [] \<or>
                    scriptsById st (scriptId (location (hd (n_callFrames n)))) \<noteq> None
                 then Some (hd (n_callFrames n)) else None)
      else None) \<and>
   Handles_get (sourceHandles (handle_event basename fixUrl (EvPaused n m) st)) k =
     (if (n_reason n \<noteq> ''exception'' \<and> \<not> nonempty_hits (n_hitBreakpoints n) \<and>
          truthy_str (expectingStopReason st) \<and> smartStep st \<and> sourceMaps st \<and> n_callFrames n \<noteq> []) \<and>
         k = START_HANDLE
      then Some \<lparr>sc_scriptId =
                   Some (case scriptsById st (scriptId (location (hd (n_callFrames n)))) of
                           None \<Rightarrow> scriptId (location (hd (n_callFrames n)))
                         | Some s \<Rightarrow> if \<not> shouldIgnoreScript s then s_scriptId s
                                     else scriptId (location (hd (n_callFrames n)))),
                 sc_contents = None, sc_mappedPath = None\<rparr>
      else None)"
proof -
  have "currentStack new_adapter = None"
    by (simp add: new_adapter_def clearTargetContext_def)
  then have "\<not> paused_after False evs \<longrightarrow> currentStack (run basename fixUrl evs new_adapter) = None"
    using run_currentStack [of basename fixUrl evs new_adapter] by simp
  moreover have "frameHandles (onDebuggerResumed st) = frameHandles st \<and>
      variableHandles (onDebuggerResumed st) = variableHandles st \<and>
      sourceHandles (onDebuggerResumed st) = sourceHandles st"
    by (simp add: onDebuggerResumed_def setOverlay_def Let_def)
  ultimately show ?thesis
    using paused_event_handles [of basename fixUrl n m st k] by simp
qed

theorem not_paused_stack_and_handles_witness:
  "\<not> paused_after False
        [EvPaused \<lparr>n_callFrames = [\<lparr>callFrameId = ''0'', functionName = ''f'',
                                   location = \<lparr>scriptId = ''7'', lineNumber = 1, columnNumber = Some 0\<rparr>\<rparr>],
                  n_reason = ''other'', n_data = None, n_hitBreakpoints = None\<rparr> False,
         EvStackTrace None, EvResumed] \<and>
   currentStack (run (\<lambda>u. u) (\<lambda>u. u)
        [EvPaused \<lparr>n_callFrames = [\<lparr>callFrameId = ''0'', functionName = ''f'',
                                   location = \<lparr>scriptId = ''7'', lineNumber = 1, columnNumber = Some 0\<rparr>\<rparr>],
                  n_reason = ''other'', n_data = None, n_hitBreakpoints = None\<rparr> False,
         EvStackTrace None, EvResumed] new_adapter) = None \<and>
   Handles_get (frameHandles (run (\<lambda>u. u) (\<lambda>u. u)
        [EvPaused \<lparr>n_callFrames = [\<lparr>callFrameId = ''0'', functionName = ''f'',
                                   location = \<lparr>scriptId = ''7'', lineNumber = 1, columnNumber = Some 0\<rparr>\<rparr>],
                  n_reason = ''other'', n_data = None, n_hitBreakpoints = None\<rparr> False,
         EvStackTrace None, EvResumed] new_adapter)) START_HANDLE
     = Some (Some \<lparr>callFrameId = ''0'', functionName = ''f'',
                  location = \<lparr>scriptId = ''7'', lineNumber = 1, columnNumber = Some 0\<rparr>\<rparr>) \<and>
   Handles_get (frameHandles (handle_event (\<lambda>u. u) (\<lambda>u. u)
        (EvPaused \<lparr>n_callFrames = [\<lparr>callFrameId = ''0'', functionName = ''f'',
                                   location = \<lparr>scriptId = ''7'', lineNumber = 1, columnNumber = Some 0\<rparr>\<rparr>],
                  n_reason = ''other'', n_data = None, n_hitBreakpoints = None\<rparr> False)
        (run (\<lambda>u. u) (\<lambda>u. u)
           [EvPaused \<lparr>n_callFrames = [\<lparr>callFrameId = ''0'', functionName = ''f'',
                                   location = \<lparr>scriptId = ''7'', lineNumber = 1, columnNumber = Some 0\<rparr>\<rparr>],
                  n_reason = ''other'', n_data = None, n_hitBreakpoints = None\<rparr> False,
         EvStackTrace None, EvResumed] new_adapter))) START_HANDLE = None \<and>
   Handles_get (sourceHandles (handle_event (\<lambda>u. u) (\<lambda>u. u)
        (EvPaused \<lparr>n_callFrames = [\<lparr>callFrameId = ''0'', functionName = ''f'',
                                   location = \<lparr>scriptId = ''7'', lineNumber = 1, columnNumber = Some 0\<rparr>\<rparr>],
                  n_reason = ''other'', n_data = None, n_hitBreakpoints = None\<rparr> False)
        (run (\<lambda>u. u) (\<lambda>u. u)
           [EvPaused \<lparr>n_callFrames = [\<lparr>callFrameId = ''0'', functionName = ''f'',
                                   location = \<lparr>scriptId = ''7'', lineNumber = 1, columnNumber = Some 0\<rparr>\<rparr>],
                  n_reason = ''other'', n_data = None, n_hitBreakpoints = None\<rparr> False,
         EvStackTrace None, EvResumed] new_adapter))) START_HANDLE = None"
proof -
  let ?evs = "[EvPaused \<lparr>n_callFrames = [\<lparr>callFrameId = ''0'', functionName = ''f'',
                                   location = \<lparr>scriptId = ''7'', lineNumber = 1, columnNumber = Some 0\<rparr>\<rparr>],
                  n_reason = ''other'', n_data = None, n_hitBreakpoints = None\<rparr> False,
         EvStackTrace None, EvResumed]"
  let ?st = "run (\<lambda>u. u) (\<lambda>u. u) ?evs new_adapter"
  have p: "\<not> paused_after False ?evs"
    by simp
  have e: "expectingStopReason ?st = None"
    by (simp add: new_adapter_def clearTargetContext_def onDebuggerPaused_def setOverlay_def Let_def
        onDebuggerPaused_then_def stackTrace_def callFrameToStackFrame_def Handles_create_def Handles_reset_def
        onDebuggerResumed_def)
  have l: "Handles_get (frameHandles ?st) START_HANDLE
     = Some (Some \<lparr>callFrameId = ''0'', functionName = ''f'',
                  location = \<lparr>scriptId = ''7'', lineNumber = 1, columnNumber = Some 0\<rparr>\<rparr>)"
    by (simp add: new_adapter_def clearTargetContext_def onDebuggerPaused_def setOverlay_def Let_def
        onDebuggerPaused_then_def stackTrace_def callFrameToStackFrame_def Handles_create_def Handles_reset_def
        onDebuggerResumed_def Handles_get_def START_HANDLE_def new_Handles_def Promise_resolve_def)
  show ?thesis
    using p e l
      not_paused_stack_and_handles
        [where evs = ?evs and basename = "\<lambda>u. u" and fixUrl = "\<lambda>u. u" and st = ?st
           and n = "\<lparr>n_callFrames = [\<lparr>callFrameId = ''0'', functionName = ''f'',
                                   location = \<lparr>scriptId = ''7'', lineNumber = 1, columnNumber = Some 0\<rparr>\<rparr>],
                  n_reason = ''other'', n_data = None, n_hitBreakpoints = None\<rparr>" and m = False and k = START_HANDLE]
    by simp
qed

text \<open>
  C8 as stated fails: after a pause, a stack-trace request and a resume the adapter is
  not paused, and the frame handle and the source handle lent for the stack trace still
  resolve.
\<close>

theorem handles_resolve_after_resume:
  "\<not> paused_after False
        [EvPaused \<lparr>n_callFrames = [\<lparr>callFrameId = ''0'', functionName = ''f'',
                                   location = \<lparr>scriptId = ''7'', lineNumber = 1, columnNumber = Some 0\<rparr>\<rparr>],
                  n_reason = ''other'', n_data = None, n_hitBreakpoints = None\<rparr> False,
         EvStackTrace None, EvResumed] \<and>
   Handles_get (frameHandles (run (\<lambda>u. u) (\<lambda>u. u)
        [EvPaused \<lparr>n_callFrames = [\<lparr>callFrameId = ''0'', functionName = ''f'',
                                   location = \<lparr>scriptId = ''7'', lineNumber = 1, columnNumber = Some 0\<rparr>\<rparr>],
                  n_reason = ''other'', n_data = None, n_hitBreakpoints = None\<rparr> False,
         EvStackTrace None, EvResumed] new_adapter)) START_HANDLE
     = Some (Some \<lparr>callFrameId = ''0'', functionName = ''f'',
                  location = \<lparr>scriptId = ''7'', lineNumber = 1, columnNumber = Some 0\<rparr>\<rparr>) \<and>
   Handles_get (sourceHandles (run (\<lambda>u. u) (\<lambda>u. u)
        [EvPaused \<lparr>n_callFrames = [\<lparr>callFrameId = ''0'', functionName = ''f'',
                                   location = \<lparr>scriptId = ''7'', lineNumber = 1, columnNumber = Some 0\<rparr>\<rparr>],
                  n_reason = ''other'', n_data = None, n_hitBreakpoints = None\<rparr> False,
         EvStackTrace None, EvResumed] new_adapter)) START_HANDLE
     = Some \<lparr>sc_scriptId = Some ''7'', sc_contents = None, sc_mappedPath = None\<rparr>"
  by (simp add: new_adapter_def clearTargetContext_def onDebuggerPaused_def setOverlay_def Let_def
      onDebuggerPaused_then_def stackTrace_def callFrameToStackFrame_def Handles_create_def Handles_reset_def
      onDebuggerResumed_def Handles_get_def START_HANDLE_def new_Handles_def Promise_resolve_def)

end
